theory Spec2Isabelle
  imports Complex_Main
begin

section \<open>Command registry (main.go, lines 53-96)\<close>

text \<open>
  \<^verbatim>\<open>type VisionCommand string\<close>: a command is its menu title. Go strings are byte
  sequences, and so are the strings of HOL. The constant \<^verbatim>\<open>None\<close> of the source is
  \<open>NoneCommand\<close> here.
\<close>

type_synonym VisionCommand = string

definition DetectFaces :: VisionCommand where "DetectFaces = ''Detect Faces''"
definition DetectProducts :: VisionCommand where "DetectProducts = ''Detect Products''"
definition DetectNSFW :: VisionCommand where "DetectNSFW = ''Detect NSFW ''"
definition Tag :: VisionCommand where "Tag = ''Tag This Image''"
definition AnalyzePoses :: VisionCommand where "AnalyzePoses = ''Analyze Poses''"
definition ExtractTexts :: VisionCommand where "ExtractTexts = ''Extract Texts''"
definition MaskFaces :: VisionCommand where "MaskFaces = ''Mask Faces''"
definition NoneCommand :: VisionCommand where "NoneCommand = ''''"

text \<open>
  \<^verbatim>\<open>var allCmds = map[VisionCommand]string{...}\<close>: the entries in the order of the
  literal. A Go map is ranged over in an unspecified order, so every function that ranges
  over the registry takes the order of iteration as its first argument, and the function
  of the source's name runs it on the order of the literal.
\<close>

definition allCmds :: "(VisionCommand \<times> string) list" where
  "allCmds =
    [(DetectFaces, ''detect_faces''),
     (DetectProducts, ''detect_products''),
     (DetectNSFW, ''detect_nsfw''),
     (Tag, ''tag''),
     (AnalyzePoses, ''analyze_poses''),
     (ExtractTexts, ''extract_texts''),
     (MaskFaces, ''mask_faces'')]"

text \<open>
  \<^verbatim>\<open>for k, v := range allCmds { if v == cmd { result = k; break } }\<close>, starting from
  \<^verbatim>\<open>result = None\<close>.
\<close>

fun visionCommandForCommand_range :: "(VisionCommand \<times> string) list \<Rightarrow> string \<Rightarrow> VisionCommand" where
  "visionCommandForCommand_range [] cmd = NoneCommand"
| "visionCommandForCommand_range ((k, v) # rest) cmd =
     (if v = cmd then k else visionCommandForCommand_range rest cmd)"

definition visionCommandForCommand :: "string \<Rightarrow> VisionCommand" where
  "visionCommandForCommand cmd = visionCommandForCommand_range allCmds cmd"

text \<open>The token a command is encoded with: the map read \<^verbatim>\<open>allCmds[c]\<close>.\<close>

definition tokenOf :: "VisionCommand \<Rightarrow> string option" where
  "tokenOf c = map_of allCmds c"

section \<open>Start-up (main.go, lines 165-216)\<close>

text \<open>
  \<^verbatim>\<open>init\<close> reads the configuration file and the font, and panics when one of the four
  steps fails. The outcomes of the file system and of the two parsers are its inputs;
  the registry is a package variable that exists before \<^verbatim>\<open>init\<close> runs, so it is an
  input too.
\<close>

record Config =
  TelegramAPIToken :: string
  TelegramMonitorIntervalSeconds :: int
  KakaoAPIKey :: string
  LogglyToken :: string
  IsVerbose :: bool

record startup =
  readConfigFile :: "string + string"
  jsonUnmarshal :: "string \<Rightarrow> string + Config"
  readFontFile :: "string + string"
  truetypeParse :: "string \<Rightarrow> string + string"

record globals =
  conf :: Config
  font :: string
  loggerEnabled :: bool

datatype panic =
    PanicError string
  | SliceBoundsOutOfRange
  | IndexOutOfRange
  | NilDereference

definition init :: "(VisionCommand \<times> string) list \<Rightarrow> startup \<Rightarrow> panic + globals" where
  "init registry st =
    (case readConfigFile st of
       Inl err \<Rightarrow> Inl (PanicError err)
     | Inr file \<Rightarrow>
        (case jsonUnmarshal st file of
           Inl err \<Rightarrow> Inl (PanicError err)
         | Inr c \<Rightarrow>
            (let c' = (if TelegramMonitorIntervalSeconds c \<le> 0
                       then c\<lparr>TelegramMonitorIntervalSeconds := 1\<rparr> else c)
             in case readFontFile st of
                  Inl err \<Rightarrow> Inl (PanicError err)
                | Inr bytes \<Rightarrow>
                   (case truetypeParse st bytes of
                      Inl err \<Rightarrow> Inl (PanicError err)
                    | Inr f \<Rightarrow>
                       Inr \<lparr>conf = c', font = f, loggerEnabled = (LogglyToken c' \<noteq> '''')\<rparr>))))"

section \<open>File reference store and menu (main.go, lines 98, 1014-1028)\<close>

text \<open>\<^verbatim>\<open>var fileIDs = map[string]string{}\<close>: from the shortened file id to the full one.\<close>

type_synonym fileStore = "string \<rightharpoonup> string"

definition messageActionImage :: string where
  "messageActionImage = ''Choose action for this image:''"
definition messageUnprocessable :: string where
  "messageUnprocessable = ''Unprocessable message.''"
definition messageFailedToGetFile :: string where
  "messageFailedToGetFile = ''Failed to get file from the server.''"
definition messageCanceled :: string where
  "messageCanceled = ''Canceled.''"
definition commandCancel :: string where
  "commandCancel = ''cancel''"

record InlineKeyboardButton =
  Text :: string
  CallbackData :: "string option"

text \<open>
  \<^verbatim>\<open>bot.NewInlineKeyboardButtonsAsRowsWithCallbackData\<close> belongs to the Telegram
  library: one row per entry of the map it is given, each row holding one button.
\<close>

definition NewInlineKeyboardButtonsAsRowsWithCallbackData ::
    "(string \<times> string) list \<Rightarrow> InlineKeyboardButton list list" where
  "NewInlineKeyboardButtonsAsRowsWithCallbackData d =
     map (\<lambda>(text, callbackData). [\<lparr>Text = text, CallbackData = Some callbackData\<rparr>]) d"

text \<open>
  \<^verbatim>\<open>genImageInlineKeyboards\<close>. The slice \<^verbatim>\<open>fileID[:32]\<close> panics on a string shorter
  than 32 bytes; nothing is stored then. \<^verbatim>\<open>strings.Title(commandCancel)\<close> is
  \<^verbatim>\<open>"Cancel"\<close>. The source ranges over the registry to fill the map \<^verbatim>\<open>data\<close>, and
  the library ranges over \<^verbatim>\<open>data\<close> to build the rows: the rows come in an order that
  no call fixes. The first argument \<open>cmds\<close> is the registry in the order in which its
  entries come out as rows; there is no function without it, and the cancel row is last.
\<close>

definition genImageInlineKeyboards ::
    "(VisionCommand \<times> string) list \<Rightarrow> fileStore \<Rightarrow> string
       \<Rightarrow> panic + (fileStore \<times> InlineKeyboardButton list list)" where
  "genImageInlineKeyboards cmds fileIDs fileID =
    (if length fileID < 32 then Inl SliceBoundsOutOfRange
     else
       (let shortenedFileID = take 32 fileID;
            fileIDs' = fileIDs(shortenedFileID \<mapsto> fileID);
            d = map (\<lambda>(title, cmd). (title, cmd @ ''/'' @ shortenedFileID)) cmds;
            cancel = commandCancel
        in Inr (fileIDs',
                NewInlineKeyboardButtonsAsRowsWithCallbackData d
                  @ [[\<lparr>Text = ''Cancel'', CallbackData = Some cancel\<rparr>]])))"

text \<open>The callback payloads of a keyboard, row by row.\<close>

definition payloads :: "InlineKeyboardButton list list \<Rightarrow> string list" where
  "payloads rows = concat (map (\<lambda>b. case CallbackData b of None \<Rightarrow> [] | Some d \<Rightarrow> [d]) (concat rows))"

section \<open>Strings (standard library)\<close>

text \<open>\<^verbatim>\<open>strings.Split(s, sep)\<close> for a separator of one byte; the result is never empty.\<close>

fun Split :: "string \<Rightarrow> char \<Rightarrow> string list" where
  "Split [] sep = [[]]"
| "Split (c # cs) sep =
     (if c = sep then [] # Split cs sep
      else (case Split cs sep of
              [] \<Rightarrow> [[c]]
            | w # ws \<Rightarrow> (c # w) # ws))"

text \<open>\<^verbatim>\<open>strings.HasPrefix\<close> and \<^verbatim>\<open>strings.Contains\<close>.\<close>

definition HasPrefix :: "string \<Rightarrow> string \<Rightarrow> bool" where
  "HasPrefix s p = (take (length p) s = p)"

fun Contains :: "string \<Rightarrow> string \<Rightarrow> bool" where
  "Contains [] sub = (sub = [])"
| "Contains (c # cs) sub = (HasPrefix (c # cs) sub \<or> Contains cs sub)"


text \<open>\<^verbatim>\<open>strings.Join\<close>.\<close>

fun Join :: "string list \<Rightarrow> string \<Rightarrow> string" where
  "Join [] sep = []"
| "Join [x] sep = x"
| "Join (x # y # ys) sep = x @ sep @ Join (y # ys) sep"

text \<open>The bytes \<^verbatim>\<open>'\<close>, \<^verbatim>\<open>`\<close> and the line feed of the source's string literals.\<close>

definition quote :: string where "quote = [CHR 0x27]"
definition backquote :: string where "backquote = [CHR 0x60]"
definition newline :: string where "newline = [CHR 0x0A]"

section \<open>The outside world\<close>

text \<open>
  Every call that leaves the process is an \<open>action\<close> of the trace a handler returns,
  in the order of the calls. \<open>GoProcessImage\<close> is the statement
  \<^verbatim>\<open>go processImage(...)\<close>; the calls to the vision service are made by
  \<^verbatim>\<open>processImage\<close> only.
\<close>

datatype kakaoCall =
    DetectFaceFromBytes
  | DetectProductFromBytes
  | DetectNSFWFromBytes
  | GenerateTagsFromBytes
  | AnalyzePoseFromBytes
  | DetectTextFromBytes

datatype action =
    LogError string
  | LogRequest string string VisionCommand
  | GetFile string
  | GoProcessImage int int string VisionCommand
  | AnswerCallbackQuery string
  | EditMessageText string int int
  | SendChatAction int string
  | HttpGet string
  | Kakao kakaoCall string
  | SendPhoto int string string
  | SendMessage int string
  | DeleteMessage int int

definition ChatActionTyping :: string where "ChatActionTyping = ''typing''"
definition ChatActionUploadPhoto :: string where "ChatActionUploadPhoto = ''upload_photo''"

text \<open>
  The callback query as the handler reads it. \<^verbatim>\<open>Data\<close>, \<^verbatim>\<open>From.Username\<close> and
  \<^verbatim>\<open>Message.Text\<close> are pointers in the Telegram library: \<open>None\<close> is \<^verbatim>\<open>nil\<close>.
\<close>

record CallbackQuery =
  queryID :: string
  fromUsername :: "string option"
  fromFirstName :: string
  queryData :: "string option"
  messageChatID :: int
  messageMessageID :: int
  messageText :: "string option"

text \<open>
  What the Telegram transport answers: a result with \<^verbatim>\<open>Ok\<close> false carries its
  \<^verbatim>\<open>Description\<close> (\<open>Inl\<close>, or \<open>Some\<close> where the call returns nothing else).
  \<open>formatQuery\<close> is \<^verbatim>\<open>fmt\<close>'s rendering \<^verbatim>\<open>%+v\<close> of the query.
\<close>

record telegram =
  getFile :: "string \<Rightarrow> string + string"
  getFileURL :: "string \<Rightarrow> string"
  answerCallbackQuery :: "string \<Rightarrow> bool"
  editMessageText :: "string \<Rightarrow> int \<Rightarrow> int \<Rightarrow> string option"
  sendMessage :: "int \<Rightarrow> string \<Rightarrow> string option"
  sendPhoto :: "int \<Rightarrow> string \<Rightarrow> string \<Rightarrow> string option"
  formatQuery :: "CallbackQuery \<Rightarrow> string"

section \<open>Callback dispatch (main.go, lines 344-417)\<close>

text \<open>Lines 354-399: the message the menu is replaced with, and the calls made on the way.\<close>

definition callbackMessage ::
    "telegram \<Rightarrow> fileStore \<Rightarrow> CallbackQuery \<Rightarrow> string \<Rightarrow> panic + (string \<times> action list)" where
  "callbackMessage b fileIDs query d =
    (if d = commandCancel then Inr (messageCanceled, [])
     else
       (let parsedCommand = Split d (CHR ''/'') in
        if length parsedCommand \<ge> 2 then
          (let command = parsedCommand ! 0;
               shortenedFileID = parsedCommand ! 1
           in case fileIDs shortenedFileID of
                Some fileID \<Rightarrow>
                  (case getFile b fileID of
                     Inr file \<Rightarrow>
                       (let fileURL = getFileURL b file in
                        case messageText query of
                          None \<Rightarrow> Inl NilDereference
                        | Some text \<Rightarrow>
                            if Contains text ''image'' then
                              (let visionCommand = visionCommandForCommand command;
                                   username = (case fromUsername query of
                                                 None \<Rightarrow> fromFirstName query
                                               | Some u \<Rightarrow> u)
                               in Inr (''Processing '' @ quote @ visionCommand @ quote
                                         @ '' on received image...'',
                                       [GetFile fileID,
                                        GoProcessImage (messageChatID query) (messageMessageID query)
                                          fileURL visionCommand,
                                        LogRequest username fileURL visionCommand]))
                            else Inr (messageUnprocessable, [GetFile fileID]))
                   | Inl description \<Rightarrow>
                       Inr (messageFailedToGetFile,
                            [GetFile fileID,
                             LogError (''Failed to get file from url: '' @ description)]))
              | None \<Rightarrow>
                  Inr (messageFailedToGetFile,
                       [LogError (''Failed to get file id from shortened file id: '' @ backquote
                                    @ shortenedFileID @ backquote @ '', maybe bot was restarted?'')]))
        else Inr (messageUnprocessable, [LogError (''Failed to parse command: '' @ d)])))"

text \<open>Lines 401-416: answer the query, then edit the menu message.\<close>

definition answerAndEdit :: "telegram \<Rightarrow> CallbackQuery \<Rightarrow> string \<Rightarrow> bool \<times> action list" where
  "answerAndEdit b query message =
    (if answerCallbackQuery b (queryID query) then
       (case editMessageText b message (messageChatID query) (messageMessageID query) of
          None \<Rightarrow>
            (True,
             [AnswerCallbackQuery (queryID query),
              EditMessageText message (messageChatID query) (messageMessageID query)])
        | Some description \<Rightarrow>
            (False,
             [AnswerCallbackQuery (queryID query),
              EditMessageText message (messageChatID query) (messageMessageID query),
              LogError (''Failed to edit message text: '' @ description)]))
     else
       (False,
        [AnswerCallbackQuery (queryID query),
         LogError (''Failed to answer callback query: '' @ formatQuery b query)]))"

text \<open>
  \<^verbatim>\<open>processCallbackQuery\<close>: the result flag and the trace, or the panic of a
  \<^verbatim>\<open>nil\<close> dereference.
\<close>

definition processCallbackQuery ::
    "telegram \<Rightarrow> fileStore \<Rightarrow> CallbackQuery \<Rightarrow> panic + (bool \<times> action list)" where
  "processCallbackQuery b fileIDs query =
    (case queryData query of
       None \<Rightarrow> Inl NilDereference
     | Some d \<Rightarrow>
        (case callbackMessage b fileIDs query d of
           Inl p \<Rightarrow> Inl p
         | Inr (message, acts) \<Rightarrow>
            (let (result, tail) = answerAndEdit b query message
             in Inr (result, acts @ tail))))"

text \<open>
  The texts the menu message was edited to, the file ids asked of the transport, the
  goroutines started and the calls of the vision service, in a trace.
\<close>

fun edits :: "action list \<Rightarrow> string list" where
  "edits [] = []"
| "edits (EditMessageText m c i # as) = m # edits as"
| "edits (a # as) = edits as"

fun fetched :: "action list \<Rightarrow> string list" where
  "fetched [] = []"
| "fetched (GetFile fileID # as) = fileID # fetched as"
| "fetched (a # as) = fetched as"

fun started :: "action list \<Rightarrow> (string \<times> VisionCommand) list" where
  "started [] = []"
| "started (GoProcessImage c i u v # as) = (u, v) # started as"
| "started (a # as) = started as"

fun kakaoCalls :: "action list \<Rightarrow> kakaoCall list" where
  "kakaoCalls [] = []"
| "kakaoCalls (Kakao k bytes # as) = k # kakaoCalls as"
| "kakaoCalls (a # as) = kakaoCalls as"

section \<open>Numbers and formatting\<close>

text \<open>
  \<^verbatim>\<open>float64\<close> is modelled by \<open>real\<close>: the theorems below are about which operands
  the renderer multiplies and where the results are written, not about rounding. The
  conversion \<^verbatim>\<open>int(x)\<close> truncates towards zero. A loop index is a \<open>nat\<close>.
\<close>

definition toInt :: "real \<Rightarrow> int" where
  "toInt x = (if x < 0 then \<lceil>x\<rceil> else \<lfloor>x\<rfloor>)"

text \<open>
  \<^verbatim>\<open>fc.PointToFixed\<close> of the freetype library, at the resolution \<^verbatim>\<open>fc.SetDPI(72)\<close>
  sets: a 26.6 fixed-point number (inside the range of \<^verbatim>\<open>int32\<close>). The source shifts it
  right by 6 bits, which is \<open>div 64\<close>.
\<close>

definition PointToFixed :: "real \<Rightarrow> int" where
  "PointToFixed x = toInt (x * 72 * (64 / 72))"

text \<open>The verb \<^verbatim>\<open>%d\<close> on a number that is not negative.\<close>

fun decimal :: "nat \<Rightarrow> string" where
  "decimal n =
     (if n < 10 then [''0123456789'' ! n]
      else decimal (n div 10) @ [''0123456789'' ! (n mod 10)])"

section \<open>Colours and drawing constants (main.go, lines 129-147, 1030-1034)\<close>

type_synonym rgba = "nat \<times> nat \<times> nat \<times> nat"

definition CircleRadius :: real where "CircleRadius = 0.5"
definition StrokeWidth :: real where "StrokeWidth = 1.5"
definition PosePointRadius :: real where "PosePointRadius = 2.0"
definition PoseStrokeWidth :: real where "PoseStrokeWidth = 1.5"

definition colors :: "rgba list" where
  "colors =
    [(255, 255, 0, 255),
     (0, 255, 255, 255),
     (255, 0, 255, 255),
     (0, 255, 0, 255),
     (0, 0, 255, 255),
     (255, 0, 0, 255)]"

definition maskColor :: rgba where "maskColor = (0, 0, 0, 255)"

definition Transparent :: rgba where "Transparent = (0, 0, 0, 0)"
definition Black :: rgba where "Black = (0, 0, 0, 255)"
definition White :: rgba where "White = (255, 255, 255, 255)"

definition colorForIndex :: "nat \<Rightarrow> rgba" where
  "colorForIndex i = colors ! (i mod length colors)"

section \<open>Images, the heap and the graphic context\<close>

text \<open>
  An image is a pixel buffer of \<open>Dx\<close> by \<open>Dy\<close> pixels. The rasterisers (draw2d, freetype
  and gift) are libraries; what they write is recorded as the list \<open>Painted\<close> of the paint
  calls made on the buffer, in order, with the arguments the source passes.
\<close>

datatype pathCmd =
    MoveTo real real
  | LineTo real real
  | ArcTo real real real real real real
  | Close

datatype paint =
    FillStroke "pathCmd list" real rgba rgba
  | DrawString string int int rgba real
  | Pixelate int int int int int int int

record image =
  Dx :: int
  Dy :: int
  Pix :: "rgba list"
  Painted :: "paint list"

text \<open>
  Images live in a heap, a list of buffers addressed by position; allocation appends.
  The graphic context holds the address of the image it draws on, its pens and the path
  under construction. \<open>logged\<close> collects the calls of \<^verbatim>\<open>logError\<close>.
\<close>

record GraphicContext =
  canvas :: nat
  LineWidth :: real
  FillColor :: rgba
  StrokeColor :: rgba
  Path :: "pathCmd list"

record rstate =
  heap :: "image list"
  gc :: GraphicContext
  logged :: "string list"

definition paintOn :: "nat \<Rightarrow> paint \<Rightarrow> image list \<Rightarrow> image list" where
  "paintOn a p h =
     (if a < length h then h[a := (h ! a)\<lparr>Painted := Painted (h ! a) @ [p]\<rparr>] else h)"

text \<open>
  \<^verbatim>\<open>image.NewRGBA(image.Rect(0, 0, img.Bounds().Dx(), img.Bounds().Dy()))\<close> followed by
  \<^verbatim>\<open>draw.Draw(newImg, newImg.Bounds(), img, image.ZP, draw.Src)\<close>: a new buffer with the
  contents of the old one.
\<close>

definition copyImage :: "image \<Rightarrow> image" where
  "copyImage img = \<lparr>Dx = Dx img, Dy = Dy img, Pix = Pix img, Painted = Painted img\<rparr>"

text \<open>\<^verbatim>\<open>draw2dimg.NewGraphicContext\<close>: a black pen of width 1 and a white fill.\<close>

definition NewGraphicContext :: "nat \<Rightarrow> GraphicContext" where
  "NewGraphicContext img =
     \<lparr>canvas = img, LineWidth = 1, FillColor = White, StrokeColor = Black, Path = []\<rparr>"

text \<open>The statements of the graphic context. \<^verbatim>\<open>FillStroke\<close> paints the path and clears it;
  \<^verbatim>\<open>Save\<close> pushes the pens on the context's stack and paints nothing.\<close>

definition gcPath :: "pathCmd \<Rightarrow> rstate \<Rightarrow> rstate" where
  "gcPath c s = s\<lparr>gc := (gc s)\<lparr>Path := Path (gc s) @ [c]\<rparr>\<rparr>"

definition gcMoveTo :: "real \<Rightarrow> real \<Rightarrow> rstate \<Rightarrow> rstate" where
  "gcMoveTo x y = gcPath (MoveTo x y)"

definition gcLineTo :: "real \<Rightarrow> real \<Rightarrow> rstate \<Rightarrow> rstate" where
  "gcLineTo x y = gcPath (LineTo x y)"

definition gcArcTo :: "real \<Rightarrow> real \<Rightarrow> real \<Rightarrow> real \<Rightarrow> real \<Rightarrow> real \<Rightarrow> rstate \<Rightarrow> rstate" where
  "gcArcTo cx cy rx ry startAngle angle = gcPath (ArcTo cx cy rx ry startAngle angle)"

definition gcClose :: "rstate \<Rightarrow> rstate" where
  "gcClose = gcPath Close"

definition gcSetLineWidth :: "real \<Rightarrow> rstate \<Rightarrow> rstate" where
  "gcSetLineWidth w s = s\<lparr>gc := (gc s)\<lparr>LineWidth := w\<rparr>\<rparr>"

definition gcSetFillColor :: "rgba \<Rightarrow> rstate \<Rightarrow> rstate" where
  "gcSetFillColor c s = s\<lparr>gc := (gc s)\<lparr>FillColor := c\<rparr>\<rparr>"

definition gcSetStrokeColor :: "rgba \<Rightarrow> rstate \<Rightarrow> rstate" where
  "gcSetStrokeColor c s = s\<lparr>gc := (gc s)\<lparr>StrokeColor := c\<rparr>\<rparr>"

definition gcFillStroke :: "rstate \<Rightarrow> rstate" where
  "gcFillStroke s =
     s\<lparr>heap := paintOn (canvas (gc s))
                 (FillStroke (Path (gc s)) (LineWidth (gc s)) (StrokeColor (gc s)) (FillColor (gc s)))
                 (heap s),
       gc := (gc s)\<lparr>Path := []\<rparr>\<rparr>"

definition gcSave :: "rstate \<Rightarrow> rstate" where
  "gcSave s = s"

text \<open>
  \<^verbatim>\<open>fc.DrawString\<close> on a freetype context whose destination is \<open>dst\<close>, with the
  \<^verbatim>\<open>logError\<close> of the source when it returns an error; \<open>ft\<close> gives the error freetype
  returns for a text, if any.
\<close>

definition fcDrawString ::
    "(string \<Rightarrow> string option) \<Rightarrow> nat \<Rightarrow> rgba \<Rightarrow> real \<Rightarrow> string \<Rightarrow> int \<Rightarrow> int \<Rightarrow> rstate \<Rightarrow> rstate" where
  "fcDrawString ft dst src fontSize text x y s =
     (let s' = s\<lparr>heap := paintOn dst (DrawString text x y src fontSize) (heap s)\<rparr>
      in case ft text of
           None \<Rightarrow> s'
         | Some err \<Rightarrow> s'\<lparr>logged := logged s' @ [''Failed to draw string: '' @ err]\<rparr>)"

text \<open>Statements in sequence, and \<^verbatim>\<open>for i, x := range xs\<close>.\<close>

definition run :: "('s \<Rightarrow> 's) list \<Rightarrow> 's \<Rightarrow> 's" where
  "run stmts s = fold (\<lambda>stmt. stmt) stmts s"

fun forRange :: "(nat \<Rightarrow> 'a \<Rightarrow> 's \<Rightarrow> 's) \<Rightarrow> nat \<Rightarrow> 'a list \<Rightarrow> 's \<Rightarrow> 's" where
  "forRange body i [] s = s"
| "forRange body i (x # xs) s = forRange body (Suc i) xs (body i x s)"

section \<open>Faces (main.go, lines 437-547)\<close>

text \<open>The fields of \<^verbatim>\<open>kakaoapi.ResponseDetectedFace\<close> the source reads.\<close>

record Face =
  faceX :: real
  faceY :: real
  faceW :: real
  faceH :: real
  Nose :: "(real \<times> real) list"
  RightEye :: "(real \<times> real) list"
  LeftEye :: "(real \<times> real) list"
  Lip :: "(real \<times> real) list"

record ResponseDetectedFace =
  faceWidth :: int
  faceHeight :: int
  Faces :: "Face list"

text \<open>One of the four loops over the points of a facial feature (lines 488-522).\<close>

definition markPoints :: "real \<Rightarrow> real \<Rightarrow> (real \<times> real) list \<Rightarrow> rstate \<Rightarrow> rstate" where
  "markPoints width height points s =
     fold (\<lambda>(px, py).
             run [gcMoveTo (width * px) (height * py),
                  gcArcTo (width * px) (height * py) CircleRadius CircleRadius 0 (- pi * 2),
                  gcClose,
                  gcFillStroke])
          points s"

text \<open>\<^verbatim>\<open>case DetectFaces\<close> (lines 453-522).\<close>

definition drawFace ::
    "(string \<Rightarrow> string option) \<Rightarrow> nat \<Rightarrow> real \<Rightarrow> real \<Rightarrow> nat \<Rightarrow> Face \<Rightarrow> rstate \<Rightarrow> rstate" where
  "drawFace ft newImg width height i f s =
     (let fontSize = real_of_int (Dy (heap s ! newImg)) / 24;
          color = colorForIndex i;
          s1 = gcSetStrokeColor color s;
          s2 = run [gcMoveTo (width * faceX f) (height * faceY f),
                    gcLineTo (width * (faceX f + faceW f)) (height * faceY f),
                    gcLineTo (width * (faceX f + faceW f)) (height * (faceY f + faceH f)),
                    gcLineTo (width * faceX f) (height * (faceY f + faceH f)),
                    gcLineTo (width * faceX f) (height * faceY f),
                    gcClose,
                    gcFillStroke] s1;
          s3 = fcDrawString ft newImg color fontSize (''Face #'' @ decimal (i + 1))
                 (toInt (width * faceX f + 5))
                 (PointToFixed (height * (faceY f + faceH f) - 5) div 64) s2;
          s4 = markPoints width height (Nose f) s3;
          s5 = markPoints width height (RightEye f) s4;
          s6 = markPoints width height (LeftEye f) s5;
          s7 = markPoints width height (Lip f) s6
      in s7)"

text \<open>\<^verbatim>\<open>case MaskFaces\<close> (lines 523-541): the block size, the rectangle and the point.\<close>

definition maskFace :: "nat \<Rightarrow> real \<Rightarrow> real \<Rightarrow> Face \<Rightarrow> rstate \<Rightarrow> rstate" where
  "maskFace newImg width height f s =
     s\<lparr>heap := paintOn newImg
                 (Pixelate (toInt (width * faceW f / 8))
                    (toInt (width * faceX f))
                    (toInt (height * faceY f))
                    (toInt (width * (faceX f + faceW f)))
                    (toInt (height * (faceY f + faceH f)))
                    (toInt (width * faceX f))
                    (toInt (height * faceY f)))
                 (heap s)\<rparr>"

definition facesBody ::
    "(string \<Rightarrow> string option) \<Rightarrow> nat \<Rightarrow> real \<Rightarrow> real \<Rightarrow> VisionCommand
       \<Rightarrow> nat \<Rightarrow> Face \<Rightarrow> rstate \<Rightarrow> rstate" where
  "facesBody ft newImg width height command i f s =
     (if command = DetectFaces then drawFace ft newImg width height i f s
      else if command = MaskFaces then maskFace newImg width height f s
      else s)"

text \<open>
  \<^verbatim>\<open>processImageForFaces\<close>. The image \<open>img\<close> is an address of the heap; the result is
  the new heap, the address of the new image and what was logged.
\<close>

definition processImageForFaces ::
    "(string \<Rightarrow> string option) \<Rightarrow> image list \<Rightarrow> nat \<Rightarrow> ResponseDetectedFace \<Rightarrow> VisionCommand
       \<Rightarrow> panic + (image list \<times> nat \<times> string list)" where
  "processImageForFaces ft h img detected command =
     (if length h \<le> img then Inl NilDereference
      else
        (let width = real_of_int (faceWidth detected);
             height = real_of_int (faceHeight detected);
             newImg = length h;
             s0 = \<lparr>heap = h @ [copyImage (h ! img)], gc = NewGraphicContext newImg, logged = []\<rparr>;
             s1 = run [gcSetLineWidth StrokeWidth, gcSetFillColor Transparent] s0;
             s2 = forRange (facesBody ft newImg width height command) 0 (Faces detected) s1;
             s3 = gcSave s2
         in Inr (heap s3, newImg, logged s3)))"

section \<open>Products (main.go, lines 549-603)\<close>

record Product =
  X1 :: real
  Y1 :: real
  X2 :: real
  Y2 :: real
  Class :: string

record ResponseDetectedProduct =
  productWidth :: int
  productHeight :: int
  Objects :: "Product list"

definition drawProduct ::
    "(string \<Rightarrow> string option) \<Rightarrow> nat \<Rightarrow> real \<Rightarrow> real \<Rightarrow> nat \<Rightarrow> Product \<Rightarrow> rstate \<Rightarrow> rstate" where
  "drawProduct ft newImg width height i o' s =
     (let fontSize = real_of_int (Dy (heap s ! newImg)) / 24;
          color = colorForIndex i;
          s1 = gcSetStrokeColor color s;
          s2 = run [gcMoveTo (width * X1 o') (height * Y1 o'),
                    gcLineTo (width * X1 o') (height * Y2 o'),
                    gcLineTo (width * X2 o') (height * Y2 o'),
                    gcLineTo (width * X2 o') (height * Y1 o'),
                    gcLineTo (width * X1 o') (height * Y1 o'),
                    gcClose,
                    gcFillStroke] s1
      in fcDrawString ft newImg color fontSize (''#'' @ decimal (i + 1) @ '': '' @ Class o')
           (toInt (width * X1 o' + 5))
           (PointToFixed (height * Y2 o' - 5) div 64) s2)"

definition processImageForProducts ::
    "(string \<Rightarrow> string option) \<Rightarrow> image list \<Rightarrow> nat \<Rightarrow> ResponseDetectedProduct
       \<Rightarrow> panic + (image list \<times> nat \<times> string list \<times> string list)" where
  "processImageForProducts ft h img detected =
     (if length h \<le> img then Inl NilDereference
      else
        (let width = real_of_int (productWidth detected);
             height = real_of_int (productHeight detected);
             newImg = length h;
             s0 = \<lparr>heap = h @ [copyImage (h ! img)], gc = NewGraphicContext newImg, logged = []\<rparr>;
             s1 = run [gcSetLineWidth StrokeWidth, gcSetFillColor Transparent] s0;
             classes = map Class (Objects detected);
             s2 = forRange (drawProduct ft newImg width height) 0 (Objects detected) s1;
             s3 = gcSave s2
         in Inr (heap s3, newImg, classes, logged s3)))"

section \<open>Poses (main.go, lines 605-816)\<close>

text \<open>
  The indices of \<^verbatim>\<open>kakaoapi\<close>; a pose is given by its method \<^verbatim>\<open>KeyPointFor\<close>, which
  returns the two coordinates and the score of a key point.
\<close>

datatype KeyPointIndex =
    KeyPointIndexNose
  | KeyPointIndexLeftEye
  | KeyPointIndexRightEye
  | KeyPointIndexLeftEar
  | KeyPointIndexRightEar
  | KeyPointIndexLeftShoulder
  | KeyPointIndexRightShoulder
  | KeyPointIndexLeftElbow
  | KeyPointIndexRightElbow
  | KeyPointIndexLeftWrist
  | KeyPointIndexRightWrist
  | KeyPointIndexLeftHip
  | KeyPointIndexRightHip
  | KeyPointIndexLeftKnee
  | KeyPointIndexRightKnee
  | KeyPointIndexLeftAnkle
  | KeyPointIndexRightAnkle

type_synonym Pose = "KeyPointIndex \<Rightarrow> real \<times> real \<times> real"

text \<open>The two groups of four statements the loop body repeats: a point and a line.\<close>

definition posePoint :: "real \<times> real \<times> real \<Rightarrow> rstate \<Rightarrow> rstate" where
  "posePoint p =
     (case p of (x, y, score) \<Rightarrow>
        run [gcMoveTo x y,
             gcArcTo x y PosePointRadius PosePointRadius 0 (- pi * 2),
             gcClose,
             gcFillStroke])"

definition poseLine :: "real \<times> real \<times> real \<Rightarrow> real \<times> real \<times> real \<Rightarrow> rstate \<Rightarrow> rstate" where
  "poseLine p q =
     (case p of (x1, y1, score1) \<Rightarrow> case q of (x2, y2, score2) \<Rightarrow>
        run [gcMoveTo x1 y1,
             gcLineTo x2 y2,
             gcClose,
             gcFillStroke])"

definition drawPose :: "nat \<Rightarrow> Pose \<Rightarrow> rstate \<Rightarrow> rstate" where
  "drawPose i pose s =
     (let color = colorForIndex i;
          nose = pose KeyPointIndexNose;
          leftEye = pose KeyPointIndexLeftEye;
          rightEye = pose KeyPointIndexRightEye;
          leftEar = pose KeyPointIndexLeftEar;
          rightEar = pose KeyPointIndexRightEar;
          leftShoulder = pose KeyPointIndexLeftShoulder;
          rightShoulder = pose KeyPointIndexRightShoulder;
          leftElbow = pose KeyPointIndexLeftElbow;
          rightElbow = pose KeyPointIndexRightElbow;
          leftWrist = pose KeyPointIndexLeftWrist;
          rightWrist = pose KeyPointIndexRightWrist;
          leftHip = pose KeyPointIndexLeftHip;
          rightHip = pose KeyPointIndexRightHip;
          leftKnee = pose KeyPointIndexLeftKnee;
          rightKnee = pose KeyPointIndexRightKnee;
          leftAnkle = pose KeyPointIndexLeftAnkle;
          rightAnkle = pose KeyPointIndexRightAnkle
      in run [gcSetStrokeColor color,
              posePoint nose,
              posePoint leftEye,
              posePoint rightEye,
              posePoint leftEar,
              posePoint rightEar,
              posePoint leftShoulder,
              posePoint rightShoulder,
              poseLine leftShoulder rightShoulder,
              posePoint leftElbow,
              poseLine leftShoulder leftElbow,
              posePoint rightElbow,
              poseLine rightShoulder rightElbow,
              posePoint leftWrist,
              poseLine leftElbow leftWrist,
              posePoint rightWrist,
              poseLine rightElbow rightWrist,
              posePoint leftHip,
              posePoint rightHip,
              poseLine leftHip rightHip,
              poseLine leftShoulder rightHip,
              poseLine rightShoulder leftHip,
              posePoint leftKnee,
              poseLine leftHip leftKnee,
              posePoint rightKnee,
              poseLine rightHip rightKnee,
              posePoint leftAnkle,
              poseLine leftKnee leftAnkle,
              posePoint rightAnkle,
              poseLine rightKnee rightAnkle] s)"

definition processImageForPoses ::
    "image list \<Rightarrow> nat \<Rightarrow> Pose list \<Rightarrow> panic + (image list \<times> nat)" where
  "processImageForPoses h img analyzed =
     (if length h \<le> img then Inl NilDereference
      else
        (let newImg = length h;
             s0 = \<lparr>heap = h @ [copyImage (h ! img)], gc = NewGraphicContext newImg, logged = []\<rparr>;
             s1 = run [gcSetLineWidth StrokeWidth, gcSetFillColor Transparent] s0;
             s2 = forRange drawPose 0 analyzed s1;
             s3 = gcSave s2
         in Inr (heap s3, newImg)))"

section \<open>Image processing (main.go, lines 419-435, 818-1012)\<close>

text \<open>
  What the vision service, the network and the codecs return: \<open>Inl\<close> carries the text of
  the error. \<open>drawStringError\<close> is the error of freetype for a label, and \<open>formatPercent\<close>
  is the verb \<^verbatim>\<open>%.2f\<close> of \<^verbatim>\<open>fmt\<close>.
\<close>

record vision =
  readBytes :: "string \<Rightarrow> string + string"
  detectFace :: "string \<Rightarrow> string + ResponseDetectedFace"
  detectProduct :: "string \<Rightarrow> string + ResponseDetectedProduct"
  detectNSFW :: "string \<Rightarrow> string + (real \<times> real \<times> real)"
  generateTags :: "string \<Rightarrow> string + (string list \<times> string list)"
  analyzePose :: "string \<Rightarrow> string + Pose list"
  detectText :: "string \<Rightarrow> string + string list list"
  imageDecode :: "string \<Rightarrow> string + image"
  jpegEncode :: "image \<Rightarrow> string + string"
  drawStringError :: "string \<Rightarrow> string option"
  formatPercent :: "real \<Rightarrow> string"

text \<open>
  The upload of a rendered image, as the three image branches write it (lines 843-859,
  880-896 and 952-968): the error message left in \<^verbatim>\<open>errorMessage\<close> and the calls made.
\<close>

definition sendRendered ::
    "telegram \<Rightarrow> vision \<Rightarrow> int \<Rightarrow> image \<Rightarrow> string \<Rightarrow> string \<times> action list" where
  "sendRendered b k chatID newImg caption =
     (case jpegEncode k newImg of
        Inr buf \<Rightarrow>
          (case sendPhoto b chatID buf caption of
             None \<Rightarrow>
               ([], [SendChatAction chatID ChatActionUploadPhoto, SendPhoto chatID buf caption])
           | Some description \<Rightarrow>
               (''Failed to send image: '' @ description,
                [SendChatAction chatID ChatActionUploadPhoto, SendPhoto chatID buf caption]))
      | Inl err \<Rightarrow>
          (''Failed to encode image: '' @ err, [SendChatAction chatID ChatActionUploadPhoto]))"

text \<open>\<^verbatim>\<open>case DetectFaces, MaskFaces\<close> (lines 831-868).\<close>

definition caseFaces ::
    "telegram \<Rightarrow> vision \<Rightarrow> int \<Rightarrow> string \<Rightarrow> VisionCommand \<Rightarrow> panic + (string \<times> action list)" where
  "caseFaces b k chatID imgBytes command =
     (case detectFace k imgBytes of
        Inr detected \<Rightarrow>
          if length (Faces detected) > 0 then
            (case imageDecode k imgBytes of
               Inr img \<Rightarrow>
                 (case processImageForFaces (drawStringError k) [img] 0 detected command of
                    Inl p \<Rightarrow> Inl p
                  | Inr (h, newImg, logs) \<Rightarrow>
                      (let (errorMessage, acts) =
                             sendRendered b k chatID (h ! newImg)
                               (''Process result of '' @ quote @ command @ quote)
                       in Inr (errorMessage,
                               Kakao DetectFaceFromBytes imgBytes # map LogError logs @ acts)))
             | Inl err \<Rightarrow>
                 Inr (''Failed to decode image: '' @ err, [Kakao DetectFaceFromBytes imgBytes]))
          else Inr (''No face detected on this image.'', [Kakao DetectFaceFromBytes imgBytes])
      | Inl err \<Rightarrow>
          Inr (''Failed to detect faces: '' @ err, [Kakao DetectFaceFromBytes imgBytes]))"

text \<open>\<^verbatim>\<open>case DetectProducts\<close> (lines 869-903); a failed call leaves \<^verbatim>\<open>errorMessage\<close> empty.\<close>

definition caseProducts ::
    "telegram \<Rightarrow> vision \<Rightarrow> int \<Rightarrow> string \<Rightarrow> VisionCommand \<Rightarrow> panic + (string \<times> action list)" where
  "caseProducts b k chatID imgBytes command =
     (case detectProduct k imgBytes of
        Inr detected \<Rightarrow>
          if length (Objects detected) > 0 then
            (case imageDecode k imgBytes of
               Inr img \<Rightarrow>
                 (case processImageForProducts (drawStringError k) [img] 0 detected of
                    Inl p \<Rightarrow> Inl p
                  | Inr (h, newImg, classes, logs) \<Rightarrow>
                      (let (errorMessage, acts) =
                             sendRendered b k chatID (h ! newImg)
                               (''Process result of '' @ quote @ command @ quote @ '':''
                                  @ newline @ newline @ Join classes newline)
                       in Inr (errorMessage,
                               Kakao DetectProductFromBytes imgBytes # map LogError logs @ acts)))
             | Inl err \<Rightarrow>
                 Inr (''Failed to decode image: '' @ err, [Kakao DetectProductFromBytes imgBytes]))
          else Inr (''No product detected on this image.'', [Kakao DetectProductFromBytes imgBytes])
      | Inl err \<Rightarrow> Inr ([], [Kakao DetectProductFromBytes imgBytes]))"

text \<open>\<^verbatim>\<open>case DetectNSFW\<close> (lines 904-922).\<close>

definition caseNSFW ::
    "telegram \<Rightarrow> vision \<Rightarrow> int \<Rightarrow> string \<Rightarrow> VisionCommand \<Rightarrow> panic + (string \<times> action list)" where
  "caseNSFW b k chatID imgBytes command =
     (case detectNSFW k imgBytes of
        Inr (normal, soft, adult) \<Rightarrow>
          (let message = ''Process result of '' @ quote @ command @ quote @ '':'' @ newline @ newline
                 @ ''Normal: '' @ formatPercent k (100.0 * normal) @ ''%'' @ newline
                 @ ''Soft: '' @ formatPercent k (100.0 * soft) @ ''%'' @ newline
                 @ ''Adult: '' @ formatPercent k (100.0 * adult) @ ''%''
           in case sendMessage b chatID message of
                None \<Rightarrow>
                  Inr ([], [Kakao DetectNSFWFromBytes imgBytes, SendMessage chatID message])
              | Some description \<Rightarrow>
                  Inr (''Failed to send nsfw factors: '' @ description,
                       [Kakao DetectNSFWFromBytes imgBytes, SendMessage chatID message]))
      | Inl err \<Rightarrow>
          Inr (''Failed to detect NSFW factors from image: '' @ err,
               [Kakao DetectNSFWFromBytes imgBytes]))"

text \<open>
  \<^verbatim>\<open>case Tag\<close> (lines 923-941). The loop reads \<^verbatim>\<open>LabelsKorean[i]\<close> for every index
  of \<^verbatim>\<open>Labels\<close>, which panics when the second list is the shorter one.
\<close>

fun tagLines :: "string list \<Rightarrow> string list \<Rightarrow> panic + string list" where
  "tagLines [] korean = Inr []"
| "tagLines (l # ls) [] = Inl IndexOutOfRange"
| "tagLines (l # ls) (k # ks) =
     (case tagLines ls ks of
        Inl p \<Rightarrow> Inl p
      | Inr tags \<Rightarrow> Inr ((l @ '' ('' @ k @ '')'') # tags))"

definition caseTag ::
    "telegram \<Rightarrow> vision \<Rightarrow> int \<Rightarrow> string \<Rightarrow> VisionCommand \<Rightarrow> panic + (string \<times> action list)" where
  "caseTag b k chatID imgBytes command =
     (case generateTags k imgBytes of
        Inr (labels, labelsKorean) \<Rightarrow>
          if length labels > 0 then
            (case tagLines labels labelsKorean of
               Inl p \<Rightarrow> Inl p
             | Inr tags \<Rightarrow>
                 (let message = ''Process result of '' @ quote @ command @ quote @ '':''
                        @ newline @ newline @ Join tags newline
                  in case sendMessage b chatID message of
                       None \<Rightarrow>
                         Inr ([], [Kakao GenerateTagsFromBytes imgBytes, SendMessage chatID message])
                     | Some description \<Rightarrow>
                         Inr (''Failed to send tags: '' @ description,
                              [Kakao GenerateTagsFromBytes imgBytes, SendMessage chatID message])))
          else Inr (''Could not tag given image.'', [Kakao GenerateTagsFromBytes imgBytes])
      | Inl err \<Rightarrow>
          Inr (''Failed to tag image: '' @ err, [Kakao GenerateTagsFromBytes imgBytes]))"

text \<open>\<^verbatim>\<open>case AnalyzePoses\<close> (lines 942-974).\<close>

definition casePoses ::
    "telegram \<Rightarrow> vision \<Rightarrow> int \<Rightarrow> string \<Rightarrow> VisionCommand \<Rightarrow> panic + (string \<times> action list)" where
  "casePoses b k chatID imgBytes command =
     (case analyzePose k imgBytes of
        Inr analyzed \<Rightarrow>
          (case imageDecode k imgBytes of
             Inr img \<Rightarrow>
               (case processImageForPoses [img] 0 analyzed of
                  Inl p \<Rightarrow> Inl p
                | Inr (h, newImg) \<Rightarrow>
                    (let (errorMessage, acts) =
                           sendRendered b k chatID (h ! newImg)
                             (''Process result of '' @ quote @ command @ quote)
                     in Inr (errorMessage, Kakao AnalyzePoseFromBytes imgBytes # acts)))
           | Inl err \<Rightarrow>
               Inr (''Failed to decode image: '' @ err, [Kakao AnalyzePoseFromBytes imgBytes]))
      | Inl err \<Rightarrow>
          Inr (''Failed to detect faces: '' @ err, [Kakao AnalyzePoseFromBytes imgBytes]))"

text \<open>\<^verbatim>\<open>case ExtractTexts\<close> (lines 975-995).\<close>

definition caseTexts ::
    "telegram \<Rightarrow> vision \<Rightarrow> int \<Rightarrow> string \<Rightarrow> VisionCommand \<Rightarrow> panic + (string \<times> action list)" where
  "caseTexts b k chatID imgBytes command =
     (case detectText k imgBytes of
        Inr detected \<Rightarrow>
          (let strs = concat detected;
               message = ''Process result of '' @ quote @ command @ quote @ '':''
                 @ newline @ newline @ Join strs '', ''
           in case sendMessage b chatID message of
                None \<Rightarrow>
                  Inr ([], [Kakao DetectTextFromBytes imgBytes, SendMessage chatID message])
              | Some description \<Rightarrow>
                  Inr (''Failed to send extracted texts: '' @ description,
                       [Kakao DetectTextFromBytes imgBytes, SendMessage chatID message]))
      | Inl err \<Rightarrow>
          Inr (''Failed to detect texts: '' @ err, [Kakao DetectTextFromBytes imgBytes]))"

text \<open>The \<^verbatim>\<open>switch\<close> of lines 830-998.\<close>

definition switchCommand ::
    "telegram \<Rightarrow> vision \<Rightarrow> int \<Rightarrow> string \<Rightarrow> VisionCommand \<Rightarrow> panic + (string \<times> action list)" where
  "switchCommand b k chatID imgBytes command =
     (if command = DetectFaces \<or> command = MaskFaces then caseFaces b k chatID imgBytes command
      else if command = DetectProducts then caseProducts b k chatID imgBytes command
      else if command = DetectNSFW then caseNSFW b k chatID imgBytes command
      else if command = Tag then caseTag b k chatID imgBytes command
      else if command = AnalyzePoses then casePoses b k chatID imgBytes command
      else if command = ExtractTexts then caseTexts b k chatID imgBytes command
      else Inr (''Command not supported: '' @ command, []))"

text \<open>
  \<^verbatim>\<open>processImage\<close>: the trace of the goroutine, or the panic that ends it. The menu
  message is deleted, and the error message, when there is one, is sent and logged.
\<close>

definition processImage ::
    "telegram \<Rightarrow> vision \<Rightarrow> int \<Rightarrow> int \<Rightarrow> string \<Rightarrow> VisionCommand \<Rightarrow> panic + action list" where
  "processImage b k chatID messageIDToDelete fileURL command =
     (case (case readBytes k fileURL of
              Inr imgBytes \<Rightarrow> switchCommand b k chatID imgBytes command
            | Inl err \<Rightarrow>
                Inr (''Failed to read file from '' @ fileURL @ '': '' @ err, [])) of
        Inl p \<Rightarrow> Inl p
      | Inr (errorMessage, acts) \<Rightarrow>
          Inr ([SendChatAction chatID ChatActionTyping, HttpGet fileURL]
               @ acts
               @ [DeleteMessage chatID messageIDToDelete]
               @ (if errorMessage \<noteq> [] then [SendMessage chatID errorMessage, LogError errorMessage]
                  else [])))"

text \<open>The text messages and the photos sent in a trace.\<close>

fun texts :: "action list \<Rightarrow> string list" where
  "texts [] = []"
| "texts (SendMessage c m # as) = m # texts as"
| "texts (a # as) = texts as"

fun photos :: "action list \<Rightarrow> (string \<times> string) list" where
  "photos [] = []"
| "photos (SendPhoto c buf caption # as) = (buf, caption) # photos as"
| "photos (a # as) = photos as"

section \<open>Concrete inputs\<close>

text \<open>A file id as Telegram issues them, and its first 32 bytes.\<close>

definition exampleFileID :: string where
  "exampleFileID = ''AgACAgUAAxkBAAIBQ2ZpZWxkLWV4YW1wbGUtZmlsZS1pZA''"

definition exampleKey :: string where
  "exampleKey = ''AgACAgUAAxkBAAIBQ2ZpZWxkLWV4YW1w''"

text \<open>A transport on which every call succeeds, and two on which one call fails.\<close>

definition telegramUp :: telegram where
  "telegramUp =
    \<lparr>getFile = (\<lambda>fileID. Inr (''photos/'' @ fileID)),
     getFileURL = (\<lambda>path. ''https://api.telegram.org/file/'' @ path),
     answerCallbackQuery = (\<lambda>q. True),
     editMessageText = (\<lambda>m c i. None),
     sendMessage = (\<lambda>c m. None),
     sendPhoto = (\<lambda>c p cap. None),
     formatQuery = queryID\<rparr>"

definition telegramNoFile :: telegram where
  "telegramNoFile = telegramUp\<lparr>getFile := (\<lambda>fileID. Inl ''Bad Request: invalid file id'')\<rparr>"

definition telegramNoAnswer :: telegram where
  "telegramNoAnswer = telegramUp\<lparr>answerCallbackQuery := (\<lambda>q. False)\<rparr>"

definition exampleQuery :: "string \<Rightarrow> CallbackQuery" where
  "exampleQuery d =
    \<lparr>queryID = ''q1'', fromUsername = None, fromFirstName = ''Ann'', queryData = Some d,
     messageChatID = 7, messageMessageID = 42, messageText = Some messageActionImage\<rparr>"

text \<open>
  A registry in which two commands share a token, and a start-up in which every file
  is read and parsed.
\<close>

definition duplicateRegistry :: "(VisionCommand \<times> string) list" where
  "duplicateRegistry = [(DetectFaces, ''detect''), (DetectProducts, ''detect'')]"

definition exampleConfig :: Config where
  "exampleConfig =
    \<lparr>TelegramAPIToken = ''t'', TelegramMonitorIntervalSeconds = 0,
     KakaoAPIKey = ''k'', LogglyToken = [], IsVerbose = False\<rparr>"

definition startupFine :: startup where
  "startupFine =
    \<lparr>readConfigFile = Inr ''{}'',
     jsonUnmarshal = (\<lambda>file. Inr exampleConfig),
     readFontFile = Inr ''ttf'',
     truetypeParse = (\<lambda>bytes. Inr bytes)\<rparr>"

text \<open>
  The payloads of the menu of a file and the store left by storing it, for an order of
  the rows; the trace of a handled callback and of a processed image.
\<close>

definition menuPayloads :: "(VisionCommand \<times> string) list \<Rightarrow> fileStore \<Rightarrow> string \<Rightarrow> string list" where
  "menuPayloads cmds fileIDs fileID =
     (case genImageInlineKeyboards cmds fileIDs fileID of
        Inl p \<Rightarrow> []
      | Inr (s, rows) \<Rightarrow> payloads rows)"

definition storeAfter :: "(VisionCommand \<times> string) list \<Rightarrow> fileStore \<Rightarrow> string \<Rightarrow> fileStore" where
  "storeAfter cmds fileIDs fileID =
     (case genImageInlineKeyboards cmds fileIDs fileID of
        Inl p \<Rightarrow> fileIDs
      | Inr (s, rows) \<Rightarrow> s)"

definition traceOf :: "panic + (bool \<times> action list) \<Rightarrow> action list" where
  "traceOf r = (case r of Inl p \<Rightarrow> [] | Inr (ok, tr) \<Rightarrow> tr)"

definition imageTrace :: "panic + action list \<Rightarrow> action list" where
  "imageTrace r = (case r of Inl p \<Rightarrow> [] | Inr tr \<Rightarrow> tr)"

text \<open>
  The menu of the example file with its rows in the order \<open>cmds\<close>, and a second file id
  that has the first 32 bytes of the example file id.
\<close>

definition exampleRows :: "(VisionCommand \<times> string) list \<Rightarrow> InlineKeyboardButton list list" where
  "exampleRows cmds =
     NewInlineKeyboardButtonsAsRowsWithCallbackData
       (map (\<lambda>(title, cmd). (title, cmd @ ''/'' @ exampleKey)) cmds)
     @ [[\<lparr>Text = ''Cancel'', CallbackData = Some commandCancel\<rparr>]]"

definition collidingFileID :: string where
  "collidingFileID = ''AgACAgUAAxkBAAIBQ2ZpZWxkLWV4YW1wbGUtb3RoZXItaWQ''"

text \<open>
  A decoded image of 100 by 48 pixels, and a detection response that declares 200 by
  100 pixels, with one face and one point of its nose.
\<close>

definition exampleImage :: image where
  "exampleImage =
     \<lparr>Dx = 100, Dy = 48, Pix = replicate 4800 (200, 120, 40, 255), Painted = []\<rparr>"

definition exampleFace :: Face where
  "exampleFace =
    \<lparr>faceX = 0.25, faceY = 0.5, faceW = 0.5, faceH = 0.25,
     Nose = [(0.5, 0.5)], RightEye = [], LeftEye = [], Lip = []\<rparr>"

definition exampleDetected :: ResponseDetectedFace where
  "exampleDetected = \<lparr>faceWidth = 200, faceHeight = 100, Faces = [exampleFace]\<rparr>"

definition noProducts :: ResponseDetectedProduct where
  "noProducts = \<lparr>productWidth = 200, productHeight = 100, Objects = []\<rparr>"

definition noDrawStringError :: "string \<Rightarrow> string option" where
  "noDrawStringError text = None"

text \<open>
  A vision service, a network and codecs on which every call succeeds and every result
  is empty; and the same with a face detection that fails.
\<close>

definition noFaces :: ResponseDetectedFace where
  "noFaces = \<lparr>faceWidth = 200, faceHeight = 100, Faces = []\<rparr>"

definition emptyVision :: vision where
  "emptyVision =
    \<lparr>readBytes = (\<lambda>url. Inr ''JPEG''),
     detectFace = (\<lambda>bytes. Inr noFaces),
     detectProduct = (\<lambda>bytes. Inr noProducts),
     detectNSFW = (\<lambda>bytes. Inr (0.951, 0.03, 0.019)),
     generateTags = (\<lambda>bytes. Inr ([], [])),
     analyzePose = (\<lambda>bytes. Inr []),
     detectText = (\<lambda>bytes. Inr []),
     imageDecode = (\<lambda>bytes. Inr exampleImage),
     jpegEncode = (\<lambda>img. if length (Pix img) = nat (Dx img * Dy img) then Inr ''encoded''
                        else Inl ''jpeg: short pixel buffer''),
     drawStringError = noDrawStringError,
     formatPercent = (\<lambda>x. ''0.00'')\<rparr>"

definition visionDown :: vision where
  "visionDown = emptyVision\<lparr>detectFace := (\<lambda>bytes. Inl ''timeout'')\<rparr>"

text \<open>The same service with a decoder that rejects the bytes.\<close>

definition visionNoDecode :: vision where
  "visionNoDecode = emptyVision\<lparr>imageDecode := (\<lambda>bytes. Inl ''image: unknown format'')\<rparr>"

text \<open>The same service with an encoder that fails.\<close>

definition visionNoEncode :: vision where
  "visionNoEncode = emptyVision\<lparr>jpegEncode := (\<lambda>img. Inl ''jpeg: write failed'')\<rparr>"

definition exampleURL :: string where
  "exampleURL = ''https://api.telegram.org/file/photos/file_0.jpg''"

section \<open>The overlay, in the words of the specification\<close>

text \<open>
  A normalized coordinate becomes a pixel coordinate by multiplication with the length of
  its axis. The overlay of a face is stated from the declared width \<open>W\<close> and height \<open>H\<close>
  of the detection response: the outline through the four scaled corners, the label at
  the bottom left corner, and a circle at every scaled point of the nose, the eyes and
  the lips. The mask of a face is the pixelation of its scaled rectangle.
\<close>

definition scale :: "real \<Rightarrow> real \<Rightarrow> real" where
  "scale normalizedCoord axisLength = axisLength * normalizedCoord"

definition faceOverlay :: "real \<Rightarrow> real \<Rightarrow> real \<Rightarrow> nat \<Rightarrow> Face \<Rightarrow> paint list" where
  "faceOverlay W H fontSize i f =
     (let c = colorForIndex i;
          left = scale (faceX f) W;
          right = scale (faceX f + faceW f) W;
          top = scale (faceY f) H;
          bottom = scale (faceY f + faceH f) H
      in [FillStroke [MoveTo left top, LineTo right top, LineTo right bottom,
                      LineTo left bottom, LineTo left top, Close]
            StrokeWidth c Transparent,
          DrawString (''Face #'' @ decimal (i + 1)) (toInt (left + 5))
            (PointToFixed (bottom - 5) div 64) c fontSize]
         @ map (\<lambda>(px, py).
                  FillStroke [MoveTo (scale px W) (scale py H),
                              ArcTo (scale px W) (scale py H) CircleRadius CircleRadius 0 (- pi * 2),
                              Close]
                    StrokeWidth c Transparent)
               (Nose f @ RightEye f @ LeftEye f @ Lip f))"

definition faceMask :: "real \<Rightarrow> real \<Rightarrow> Face \<Rightarrow> paint list" where
  "faceMask W H f =
     [Pixelate (toInt (scale (faceW f) W / 8))
        (toInt (scale (faceX f) W))
        (toInt (scale (faceY f) H))
        (toInt (scale (faceX f + faceW f) W))
        (toInt (scale (faceY f + faceH f) H))
        (toInt (scale (faceX f) W))
        (toInt (scale (faceY f) H))]"

fun facesOverlay :: "VisionCommand \<Rightarrow> real \<Rightarrow> real \<Rightarrow> real \<Rightarrow> nat \<Rightarrow> Face list \<Rightarrow> paint list" where
  "facesOverlay command W H fontSize i [] = []"
| "facesOverlay command W H fontSize i (f # fs) =
     (if command = DetectFaces then faceOverlay W H fontSize i f
      else if command = MaskFaces then faceMask W H f
      else [])
     @ facesOverlay command W H fontSize (Suc i) fs"

section \<open>Invariant of the file store\<close>

text \<open>Every file id of the store is stored under its own first 32 bytes.\<close>

definition keyedByPrefix :: "fileStore \<Rightarrow> bool" where
  "keyedByPrefix fileIDs \<longleftrightarrow>
     (\<forall>key fileID. fileIDs key = Some fileID \<longrightarrow> key = take 32 fileID)"

section \<open>Invariants of the renderers\<close>



text \<open>
  \<open>pens n s\<close>: the context draws on image \<open>n\<close> with an empty path, the stroke width and
  the transparent fill that the renderers set. \<open>grows n ps s s'\<close>: from \<open>s\<close> to \<open>s'\<close>
  the paints \<open>ps\<close> were added to image \<open>n\<close>, whose height is the same.
  \<open>extends n ps s s'\<close>: moreover the colour of the stroke is the same.
\<close>

definition pens :: "nat \<Rightarrow> rstate \<Rightarrow> bool" where
  "pens n s \<longleftrightarrow>
     canvas (gc s) = n \<and> n < length (heap s) \<and> Path (gc s) = []
     \<and> LineWidth (gc s) = StrokeWidth \<and> FillColor (gc s) = Transparent"

definition grows :: "nat \<Rightarrow> paint list \<Rightarrow> rstate \<Rightarrow> rstate \<Rightarrow> bool" where
  "grows n ps s s' \<longleftrightarrow>
     pens n s' \<and> length (heap s') = length (heap s)
     \<and> Dy (heap s' ! n) = Dy (heap s ! n)
     \<and> Painted (heap s' ! n) = Painted (heap s ! n) @ ps"

definition extends :: "nat \<Rightarrow> paint list \<Rightarrow> rstate \<Rightarrow> rstate \<Rightarrow> bool" where
  "extends n ps s s' \<longleftrightarrow> grows n ps s s' \<and> StrokeColor (gc s') = StrokeColor (gc s)"

section \<open>Properties of the registry\<close>

lemmas command_defs =
  DetectFaces_def DetectProducts_def DetectNSFW_def Tag_def AnalyzePoses_def
  ExtractTexts_def MaskFaces_def NoneCommand_def

declare decimal.simps [simp del]

lemma range_unique:
  assumes "(c, t) \<in> set order" and "\<forall>c'. (c', t) \<in> set order \<longrightarrow> c' = c"
  shows "visionCommandForCommand_range order t = c"
  using assms
proof (induction order)
  case Nil
  then show ?case by simp
next
  case (Cons p rest)
  obtain k v where p: "p = (k, v)" by (cases p)
  show ?case
  proof (cases "v = t")
    case True
    then have "(k, t) \<in> set (p # rest)" using p by simp
    with Cons.prems(2) have "k = c" by blast
    with True p show ?thesis by simp
  next
    case False
    with Cons.prems(1) p have "(c, t) \<in> set rest" by simp
    moreover from Cons.prems(2) have "\<forall>c'. (c', t) \<in> set rest \<longrightarrow> c' = c" by simp
    ultimately have "visionCommandForCommand_range rest t = c" by (rule Cons.IH)
    with False p show ?thesis by simp
  qed
qed

lemma allCmds_tokens_unique:
  "(c, t) \<in> set allCmds \<Longrightarrow> (c', t) \<in> set allCmds \<Longrightarrow> c' = c"
  by (auto simp: allCmds_def)

lemma allCmds_no_slash: "(c, t) \<in> set allCmds \<Longrightarrow> CHR ''/'' \<notin> set t"
  by (auto simp: allCmds_def)

lemma tokenOf_mem: "tokenOf c = Some t \<Longrightarrow> (c, t) \<in> set allCmds"
  unfolding tokenOf_def by (rule map_of_SomeD)

lemma init_ignores_registry: "init registry st = init registry' st"
  unfolding init_def by (rule refl)

text \<open>
  Claim C3, as amended. For every command \<open>c\<close> of the registry, decoding the token that
  encodes \<open>c\<close> gives \<open>c\<close> back, in whatever order the map is ranged over. Start-up makes
  no check of the registry: the outcome of \<^verbatim>\<open>init\<close> is the same for every registry.
\<close>

theorem registry_round_trip:
  assumes "set order = set allCmds" and "tokenOf c = Some t"
  shows "visionCommandForCommand_range order t = c \<and> init registry st = init allCmds st"
proof -
  from assms(2) have mem: "(c, t) \<in> set allCmds" by (rule tokenOf_mem)
  have "visionCommandForCommand_range order t = c"
  proof (rule range_unique)
    show "(c, t) \<in> set order" using mem assms(1) by simp
  next
    show "\<forall>c'. (c', t) \<in> set order \<longrightarrow> c' = c"
    proof (intro allI impI)
      fix c' assume "(c', t) \<in> set order"
      then have "(c', t) \<in> set allCmds" using assms(1) by simp
      with mem show "c' = c" by (rule allCmds_tokens_unique)
    qed
  qed
  moreover have "init registry st = init allCmds st" by (rule init_ignores_registry)
  ultimately show ?thesis by (rule conjI)
qed

theorem registry_round_trip_witness:
  "set (rev allCmds) = set allCmds \<and> tokenOf MaskFaces = Some ''mask_faces''
   \<and> visionCommandForCommand_range (rev allCmds) ''mask_faces'' = MaskFaces
   \<and> init duplicateRegistry startupFine = init allCmds startupFine"
proof -
  have a: "set (rev allCmds) = set allCmds" by simp
  have b: "tokenOf MaskFaces = Some ''mask_faces''"
    by (simp add: tokenOf_def allCmds_def command_defs)
  from registry_round_trip [OF a b, of duplicateRegistry startupFine] a b show ?thesis
    by blast
qed

text \<open>
  Claim C3 as stated fails: with a registry in which two commands share a token, start-up
  succeeds, and the token decodes to one command or the other with the order of iteration.
\<close>

theorem registry_duplicate_counterexample:
  "\<not> distinct (map snd duplicateRegistry)
   \<and> init duplicateRegistry startupFine =
       Inr \<lparr>conf = exampleConfig\<lparr>TelegramMonitorIntervalSeconds := 1\<rparr>,
            font = ''ttf'', loggerEnabled = False\<rparr>
   \<and> visionCommandForCommand_range duplicateRegistry ''detect'' = DetectFaces
   \<and> visionCommandForCommand_range (rev duplicateRegistry) ''detect'' = DetectProducts"
  by (simp add: duplicateRegistry_def init_def startupFine_def exampleConfig_def)

section \<open>Properties of the menu and of the callback dispatch\<close>

lemma Split_nonempty: "Split s sep \<noteq> []"
  by (induction s) (auto split: list.splits)

lemma Split_no_sep: "sep \<notin> set s \<Longrightarrow> Split s sep = [s]"
  by (induction s) auto

lemma Split_append: "sep \<notin> set a \<Longrightarrow> Split (a @ sep # b) sep = a # Split b sep"
  by (induction a) auto

text \<open>
  A key that holds the delimiter is cut at it: the second part of the split payload is
  then not the key.
\<close>

lemma Split_key_with_delimiter:
  "Split (''tag'' @ ''/'' @ ''AgAC/AgUA'') (CHR ''/'') = [''tag'', ''AgAC'', ''AgUA'']"
  by simp

lemma Split_cancel: "Split commandCancel (CHR ''/'') = [commandCancel]"
  by (rule Split_no_sep) (simp add: commandCancel_def)

lemma buttons_set:
  "set (concat (NewInlineKeyboardButtonsAsRowsWithCallbackData d))
     = (\<lambda>(text, callbackData). \<lparr>Text = text, CallbackData = Some callbackData\<rparr>) ` set d"
  by (induction d) (auto simp: NewInlineKeyboardButtonsAsRowsWithCallbackData_def)

lemma payloads_buttons:
  "payloads (NewInlineKeyboardButtonsAsRowsWithCallbackData d @ [[\<lparr>Text = x, CallbackData = Some y\<rparr>]])
     = map snd d @ [y]"
  by (induction d) (auto simp: payloads_def NewInlineKeyboardButtonsAsRowsWithCallbackData_def)

lemma answerAndEdit_edits:
  "edits (snd (answerAndEdit b query m)) = (if answerCallbackQuery b (queryID query) then [m] else [])"
  by (simp add: answerAndEdit_def split: option.splits)

lemma answerAndEdit_started: "started (snd (answerAndEdit b query m)) = []"
  by (simp add: answerAndEdit_def split: option.splits)

lemma answerAndEdit_kakaoCalls: "kakaoCalls (snd (answerAndEdit b query m)) = []"
  by (simp add: answerAndEdit_def split: option.splits)

lemma edits_append: "edits (xs @ ys) = edits xs @ edits ys"
  by (induction xs rule: edits.induct) simp_all

lemma started_append: "started (xs @ ys) = started xs @ started ys"
  by (induction xs rule: started.induct) simp_all

lemma kakaoCalls_append: "kakaoCalls (xs @ ys) = kakaoCalls xs @ kakaoCalls ys"
  by (induction xs rule: kakaoCalls.induct) simp_all

lemma processCallbackQuery_Inr:
  assumes "queryData query = Some d" and "callbackMessage b fileIDs query d = Inr (m, acts)"
  shows "processCallbackQuery b fileIDs query =
           Inr (fst (answerAndEdit b query m), acts @ snd (answerAndEdit b query m))"
  using assms by (simp add: processCallbackQuery_def split: prod.splits)

lemma callbackMessage_miss:
  assumes "Split d (CHR ''/'') = command # key # rest" and "fileIDs key = None"
  shows "callbackMessage b fileIDs query d =
           Inr (messageFailedToGetFile,
                [LogError (''Failed to get file id from shortened file id: '' @ backquote
                             @ key @ backquote @ '', maybe bot was restarted?'')])"
proof -
  have "d \<noteq> commandCancel" using assms(1) Split_cancel by auto
  then show ?thesis using assms by (simp add: callbackMessage_def)
qed

lemma callbackMessage_getFile_failed:
  assumes "Split d (CHR ''/'') = command # key # rest" and "fileIDs key = Some fileID"
    and "getFile b fileID = Inl description"
  shows "callbackMessage b fileIDs query d =
           Inr (messageFailedToGetFile,
                [GetFile fileID, LogError (''Failed to get file from url: '' @ description)])"
proof -
  have "d \<noteq> commandCancel" using assms(1) Split_cancel by auto
  then show ?thesis using assms by (simp add: callbackMessage_def)
qed

lemma fetched_append: "fetched (xs @ ys) = fetched xs @ fetched ys"
  by (induction xs rule: fetched.induct) simp_all

lemma answerAndEdit_fetched: "fetched (snd (answerAndEdit b query m)) = []"
  by (simp add: answerAndEdit_def split: option.splits)

text \<open>
  The decoding of a token does not depend on the order in which the registry is ranged
  over: \<^verbatim>\<open>visionCommandForCommand\<close> is a function of its argument.
\<close>

lemma range_no_token:
  "\<forall>c. (c, t) \<notin> set order \<Longrightarrow> visionCommandForCommand_range order t = NoneCommand"
  by (induction order) auto

lemma visionCommandForCommand_any_order:
  assumes "set order = set allCmds"
  shows "visionCommandForCommand_range order t = visionCommandForCommand t"
proof (cases "\<exists>c. (c, t) \<in> set allCmds")
  case True
  then obtain c where mem: "(c, t) \<in> set allCmds" by blast
  have u: "\<forall>c'. (c', t) \<in> set allCmds \<longrightarrow> c' = c"
    using mem allCmds_tokens_unique by blast
  have "visionCommandForCommand_range allCmds t = c" using mem u by (rule range_unique)
  moreover have "visionCommandForCommand_range order t = c"
    using mem u unfolding assms [symmetric] by (rule range_unique)
  ultimately show ?thesis by (simp add: visionCommandForCommand_def)
next
  case False
  then have "\<forall>c. (c, t) \<notin> set allCmds" by blast
  then have "visionCommandForCommand_range allCmds t = NoneCommand"
    and "visionCommandForCommand_range order t = NoneCommand"
    using assms by (simp_all add: range_no_token)
  then show ?thesis by (simp add: visionCommandForCommand_def)
qed

lemma visionCommandForCommand_token:
  assumes "(c, t) \<in> set allCmds"
  shows "visionCommandForCommand t = c"
proof -
  have "\<forall>c'. (c', t) \<in> set allCmds \<longrightarrow> c' = c"
    using assms allCmds_tokens_unique by blast
  with assms have "visionCommandForCommand_range allCmds t = c" by (rule range_unique)
  then show ?thesis by (simp add: visionCommandForCommand_def)
qed

lemma callbackMessage_hit:
  assumes "Split d (CHR ''/'') = command # key # rest" and "fileIDs key = Some fileID"
    and "getFile b fileID = Inr file" and "messageText query = Some text"
    and "Contains text ''image''"
  shows "callbackMessage b fileIDs query d =
           Inr (''Processing '' @ quote @ visionCommandForCommand command @ quote
                  @ '' on received image...'',
                [GetFile fileID,
                 GoProcessImage (messageChatID query) (messageMessageID query)
                   (getFileURL b file) (visionCommandForCommand command),
                 LogRequest (case fromUsername query of None \<Rightarrow> fromFirstName query | Some u \<Rightarrow> u)
                   (getFileURL b file) (visionCommandForCommand command)])"
proof -
  have "d \<noteq> commandCancel" using assms(1) Split_cancel by auto
  then show ?thesis using assms by (simp add: callbackMessage_def Let_def)
qed

lemma callbackMessage_fetches:
  assumes "Split d (CHR ''/'') = command # key # rest" and "fileIDs key = Some fileID"
    and "messageText query = Some text"
  shows "\<exists>m acts. callbackMessage b fileIDs query d = Inr (m, acts) \<and> fetched acts = [fileID]"
proof -
  have "d \<noteq> commandCancel" using assms(1) Split_cancel by auto
  then show ?thesis using assms
    by (cases "getFile b fileID") (simp_all add: callbackMessage_def Let_def)
qed

text \<open>
  Claim C1, as amended. For a file id of at least 32 bytes, the buttons of the menu, in
  whatever order its rows come, are the cancel button, whose payload is the cancel token,
  and one button per command of the registry, whose payload is the command's token, the
  byte \<^verbatim>\<open>/\<close> and the first 32 bytes of the file id. When that key holds no \<^verbatim>\<open>/\<close>,
  the dispatcher decodes such a payload to the command and the file id it was made from:
  the split gives the token and the key, the file asked of the transport is the stored
  file id, and the goroutine started (once the file is returned, on a menu message that
  holds the word \<^verbatim>\<open>image\<close>) runs that command. The cancel token is dispatched with no
  file asked for and no goroutine started.
\<close>

theorem payload_wire_format:
  assumes "32 \<le> length fileID" and "set order = set allCmds"
  shows "(\<exists>rows. genImageInlineKeyboards order fileIDs fileID
                    = Inr (fileIDs(take 32 fileID \<mapsto> fileID), rows)
            \<and> set (concat rows) =
                 insert \<lparr>Text = ''Cancel'', CallbackData = Some commandCancel\<rparr>
                   ((\<lambda>(c, t). \<lparr>Text = c, CallbackData = Some (t @ ''/'' @ take 32 fileID)\<rparr>)
                      ` set allCmds))
     \<and> (CHR ''/'' \<notin> set (take 32 fileID) \<longrightarrow>
          (\<forall>(c, t) \<in> set allCmds.
             Split (t @ ''/'' @ take 32 fileID) (CHR ''/'') = [t, take 32 fileID]
             \<and> (queryData query = Some (t @ ''/'' @ take 32 fileID)
                  \<and> getFile b fileID = Inr file
                  \<and> messageText query = Some text \<and> Contains text ''image'' \<longrightarrow>
                 (\<exists>result tr.
                    processCallbackQuery b (fileIDs(take 32 fileID \<mapsto> fileID)) query
                      = Inr (result, tr)
                    \<and> fetched tr = [fileID]
                    \<and> started tr = [(getFileURL b file, c)]))))
     \<and> (queryData cancelQuery = Some commandCancel \<longrightarrow>
          (\<exists>result tr.
             processCallbackQuery b (fileIDs(take 32 fileID \<mapsto> fileID)) cancelQuery
               = Inr (result, tr)
             \<and> fetched tr = [] \<and> started tr = []))"
proof (intro conjI)
  let ?key = "take 32 fileID"
  let ?d = "map (\<lambda>(title, cmd). (title, cmd @ ''/'' @ ?key)) order"
  let ?rows = "NewInlineKeyboardButtonsAsRowsWithCallbackData ?d
                 @ [[\<lparr>Text = ''Cancel'', CallbackData = Some commandCancel\<rparr>]]"
  have gen: "genImageInlineKeyboards order fileIDs fileID = Inr (fileIDs(?key \<mapsto> fileID), ?rows)"
    using assms(1) by (simp add: genImageInlineKeyboards_def Let_def)
  have "set (concat ?rows) =
      insert \<lparr>Text = ''Cancel'', CallbackData = Some commandCancel\<rparr>
        ((\<lambda>(text, callbackData). \<lparr>Text = text, CallbackData = Some callbackData\<rparr>) ` set ?d)"
    by (simp del: set_concat add: buttons_set)
  also have "set ?d = (\<lambda>(title, cmd). (title, cmd @ ''/'' @ ?key)) ` set order"
    by simp
  also have "set order = set allCmds" by (rule assms(2))
  also have "(\<lambda>(text, callbackData). \<lparr>Text = text, CallbackData = Some callbackData\<rparr>)
               ` ((\<lambda>(title, cmd). (title, cmd @ ''/'' @ ?key)) ` set allCmds)
             = (\<lambda>(c, t). \<lparr>Text = c, CallbackData = Some (t @ ''/'' @ ?key)\<rparr>) ` set allCmds"
    by (simp add: image_image split_def)
  finally have buttons: "set (concat ?rows) =
      insert \<lparr>Text = ''Cancel'', CallbackData = Some commandCancel\<rparr>
        ((\<lambda>(c, t). \<lparr>Text = c, CallbackData = Some (t @ ''/'' @ ?key)\<rparr>) ` set allCmds)" .
  from gen buttons
  show "\<exists>rows. genImageInlineKeyboards order fileIDs fileID = Inr (fileIDs(?key \<mapsto> fileID), rows)
            \<and> set (concat rows) =
                 insert \<lparr>Text = ''Cancel'', CallbackData = Some commandCancel\<rparr>
                   ((\<lambda>(c, t). \<lparr>Text = c, CallbackData = Some (t @ ''/'' @ ?key)\<rparr>) ` set allCmds)"
    by blast
next
  let ?key = "take 32 fileID"
  let ?store = "fileIDs(?key \<mapsto> fileID)"
  have decode: "Split (t @ ''/'' @ ?key) (CHR ''/'') = [t, ?key]"
    if "(c, t) \<in> set allCmds" and "CHR ''/'' \<notin> set ?key" for c t
  proof -
    from that(1) have "CHR ''/'' \<notin> set t" by (rule allCmds_no_slash)
    then have "Split (t @ CHR ''/'' # ?key) (CHR ''/'') = t # Split ?key (CHR ''/'')"
      by (rule Split_append)
    with that(2) show ?thesis by (simp add: Split_no_sep)
  qed
  have dispatch: "\<exists>result tr. processCallbackQuery b ?store query = Inr (result, tr)
                    \<and> fetched tr = [fileID] \<and> started tr = [(getFileURL b file, c)]"
    if mem: "(c, t) \<in> set allCmds" and key: "CHR ''/'' \<notin> set ?key"
      and q: "queryData query = Some (t @ ''/'' @ ?key)" and f: "getFile b fileID = Inr file"
      and m: "messageText query = Some text" and i: "Contains text ''image''" for c t
  proof -
    let ?m = "''Processing '' @ quote @ visionCommandForCommand t @ quote
                @ '' on received image...''"
    let ?acts = "[GetFile fileID,
                 GoProcessImage (messageChatID query) (messageMessageID query)
                   (getFileURL b file) (visionCommandForCommand t),
                 LogRequest (case fromUsername query of None \<Rightarrow> fromFirstName query | Some u \<Rightarrow> u)
                   (getFileURL b file) (visionCommandForCommand t)]"
    have s: "Split (t @ ''/'' @ ?key) (CHR ''/'') = t # ?key # []"
      using mem key by (rule decode)
    have l: "?store ?key = Some fileID" by simp
    have "callbackMessage b ?store query (t @ ''/'' @ ?key) = Inr (?m, ?acts)"
      using s l f m i by (rule callbackMessage_hit)
    with q have "processCallbackQuery b ?store query =
                   Inr (fst (answerAndEdit b query ?m), ?acts @ snd (answerAndEdit b query ?m))"
      by (rule processCallbackQuery_Inr)
    moreover have "fetched (?acts @ snd (answerAndEdit b query ?m)) = [fileID]"
      by (simp add: fetched_append answerAndEdit_fetched)
    moreover have "started (?acts @ snd (answerAndEdit b query ?m)) = [(getFileURL b file, c)]"
      by (simp add: started_append answerAndEdit_started visionCommandForCommand_token [OF mem])
    ultimately show ?thesis by blast
  qed
  show "CHR ''/'' \<notin> set ?key \<longrightarrow>
          (\<forall>(c, t) \<in> set allCmds.
             Split (t @ ''/'' @ ?key) (CHR ''/'') = [t, ?key]
             \<and> (queryData query = Some (t @ ''/'' @ ?key)
                  \<and> getFile b fileID = Inr file
                  \<and> messageText query = Some text \<and> Contains text ''image'' \<longrightarrow>
                 (\<exists>result tr.
                    processCallbackQuery b ?store query = Inr (result, tr)
                    \<and> fetched tr = [fileID]
                    \<and> started tr = [(getFileURL b file, c)])))"
    using decode dispatch by blast
next
  let ?store = "fileIDs(take 32 fileID \<mapsto> fileID)"
  show "queryData cancelQuery = Some commandCancel \<longrightarrow>
          (\<exists>result tr. processCallbackQuery b ?store cancelQuery = Inr (result, tr)
             \<and> fetched tr = [] \<and> started tr = [])"
  proof
    assume q: "queryData cancelQuery = Some commandCancel"
    have "callbackMessage b ?store cancelQuery commandCancel = Inr (messageCanceled, [])"
      by (simp add: callbackMessage_def)
    with q have "processCallbackQuery b ?store cancelQuery =
          Inr (fst (answerAndEdit b cancelQuery messageCanceled),
               [] @ snd (answerAndEdit b cancelQuery messageCanceled))"
      by (rule processCallbackQuery_Inr)
    moreover have "fetched ([] @ snd (answerAndEdit b cancelQuery messageCanceled)) = []"
      by (simp add: answerAndEdit_fetched)
    moreover have "started ([] @ snd (answerAndEdit b cancelQuery messageCanceled)) = []"
      by (simp add: answerAndEdit_started)
    ultimately show "\<exists>result tr. processCallbackQuery b ?store cancelQuery = Inr (result, tr)
             \<and> fetched tr = [] \<and> started tr = []"
      by blast
  qed
qed

theorem payload_wire_format_witness:
  "32 \<le> length exampleFileID \<and> set (rev allCmds) = set allCmds
   \<and> (\<exists>rows. genImageInlineKeyboards (rev allCmds) Map.empty exampleFileID
                 = Inr ([exampleKey \<mapsto> exampleFileID], rows)
         \<and> \<lparr>Text = Tag, CallbackData = Some (''tag/'' @ exampleKey)\<rparr> \<in> set (concat rows))
   \<and> CHR ''/'' \<notin> set (take 32 exampleFileID) \<and> (Tag, ''tag'') \<in> set allCmds
   \<and> Split (''tag/'' @ exampleKey) (CHR ''/'') = [''tag'', exampleKey]
   \<and> queryData (exampleQuery (''tag/'' @ exampleKey)) = Some (''tag/'' @ exampleKey)
   \<and> getFile telegramUp exampleFileID = Inr (''photos/'' @ exampleFileID)
   \<and> messageText (exampleQuery (''tag/'' @ exampleKey)) = Some messageActionImage
   \<and> Contains messageActionImage ''image''
   \<and> (\<exists>result tr.
         processCallbackQuery telegramUp [exampleKey \<mapsto> exampleFileID]
           (exampleQuery (''tag/'' @ exampleKey)) = Inr (result, tr)
         \<and> fetched tr = [exampleFileID]
         \<and> started tr = [(''https://api.telegram.org/file/photos/'' @ exampleFileID, Tag)])
   \<and> queryData (exampleQuery commandCancel) = Some commandCancel
   \<and> (\<exists>result tr.
         processCallbackQuery telegramUp [exampleKey \<mapsto> exampleFileID]
           (exampleQuery commandCancel) = Inr (result, tr)
         \<and> fetched tr = [] \<and> started tr = [])"
proof -
  have l: "32 \<le> length exampleFileID" by (simp add: exampleFileID_def)
  have o: "set (rev allCmds) = set allCmds" by simp
  have k: "take 32 exampleFileID = exampleKey" by (simp add: exampleFileID_def exampleKey_def)
  have m: "(Tag, ''tag'') \<in> set allCmds" by (simp add: allCmds_def)
  have n: "CHR ''/'' \<notin> set (take 32 exampleFileID)" by (simp add: exampleFileID_def)
  have q: "queryData (exampleQuery (''tag'' @ ''/'' @ take 32 exampleFileID))
             = Some (''tag'' @ ''/'' @ take 32 exampleFileID)"
    by (simp add: exampleQuery_def)
  have g: "getFile telegramUp exampleFileID = Inr (''photos/'' @ exampleFileID)"
    by (simp add: telegramUp_def)
  have t: "messageText (exampleQuery (''tag'' @ ''/'' @ take 32 exampleFileID))
             = Some messageActionImage"
    by (simp add: exampleQuery_def)
  have i: "Contains messageActionImage ''image''"
    by (simp add: messageActionImage_def HasPrefix_def)
  have u: "getFileURL telegramUp path = ''https://api.telegram.org/file/'' @ path" for path
    by (simp add: telegramUp_def)
  have c: "queryData (exampleQuery commandCancel) = Some commandCancel"
    by (simp add: exampleQuery_def)
  note w = payload_wire_format [OF l o, of Map.empty
             "exampleQuery (''tag'' @ ''/'' @ take 32 exampleFileID)" telegramUp
             "''photos/'' @ exampleFileID" messageActionImage "exampleQuery commandCancel"]
  from w obtain rows where
    r: "genImageInlineKeyboards (rev allCmds) Map.empty exampleFileID
          = Inr ([take 32 exampleFileID \<mapsto> exampleFileID], rows)"
    and b: "set (concat rows) =
          insert \<lparr>Text = ''Cancel'', CallbackData = Some commandCancel\<rparr>
            ((\<lambda>(c, t). \<lparr>Text = c, CallbackData = Some (t @ ''/'' @ take 32 exampleFileID)\<rparr>)
               ` set allCmds)"
    by blast
  have "(\<lambda>(c, t). \<lparr>Text = c, CallbackData = Some (t @ ''/'' @ take 32 exampleFileID)\<rparr>) (Tag, ''tag'')
          \<in> set (concat rows)"
    unfolding b using m by (intro insertI2 imageI)
  then have a1: "\<lparr>Text = Tag, CallbackData = Some (''tag/'' @ exampleKey)\<rparr> \<in> set (concat rows)"
    by (simp add: k)
  from r have a0: "genImageInlineKeyboards (rev allCmds) Map.empty exampleFileID
                     = Inr ([exampleKey \<mapsto> exampleFileID], rows)"
    by (simp only: k)
  from w n m have "Split (''tag'' @ ''/'' @ take 32 exampleFileID) (CHR ''/'')
                     = [''tag'', take 32 exampleFileID]"
    by blast
  then have a2: "Split (''tag/'' @ exampleKey) (CHR ''/'') = [''tag'', exampleKey]"
    by (simp add: k)
  from w n m q g t i have "\<exists>result tr.
         processCallbackQuery telegramUp [take 32 exampleFileID \<mapsto> exampleFileID]
           (exampleQuery (''tag'' @ ''/'' @ take 32 exampleFileID)) = Inr (result, tr)
         \<and> fetched tr = [exampleFileID]
         \<and> started tr = [(getFileURL telegramUp (''photos/'' @ exampleFileID), Tag)]"
    by blast
  then have a3: "\<exists>result tr.
         processCallbackQuery telegramUp [exampleKey \<mapsto> exampleFileID]
           (exampleQuery (''tag/'' @ exampleKey)) = Inr (result, tr)
         \<and> fetched tr = [exampleFileID]
         \<and> started tr = [(''https://api.telegram.org/file/photos/'' @ exampleFileID, Tag)]"
    by (simp add: k u)
  from w c have "\<exists>result tr.
         processCallbackQuery telegramUp [take 32 exampleFileID \<mapsto> exampleFileID]
           (exampleQuery commandCancel) = Inr (result, tr)
         \<and> fetched tr = [] \<and> started tr = []"
    by blast
  then have a4: "\<exists>result tr.
         processCallbackQuery telegramUp [exampleKey \<mapsto> exampleFileID]
           (exampleQuery commandCancel) = Inr (result, tr)
         \<and> fetched tr = [] \<and> started tr = []"
    by (simp only: k)
  have q': "queryData (exampleQuery (''tag/'' @ exampleKey)) = Some (''tag/'' @ exampleKey)"
    and t': "messageText (exampleQuery (''tag/'' @ exampleKey)) = Some messageActionImage"
    by (simp_all add: exampleQuery_def)
  from l o a0 a1 n m a2 q' g t' i a3 c a4 show ?thesis by blast
qed

text \<open>
  Claim C1 as stated fails: the payload of the face button holds the delimiter
  \<^verbatim>\<open>/\<close>; the token followed by the key with no delimiter is no payload of the menu,
  and the dispatcher answers it with the message for what it cannot parse, starting
  nothing.
\<close>

theorem payload_wire_format_counterexample:
  "''detect_faces/'' @ exampleKey \<in> set (menuPayloads allCmds Map.empty exampleFileID)
   \<and> ''detect_faces'' @ exampleKey \<notin> set (menuPayloads allCmds Map.empty exampleFileID)
   \<and> edits (traceOf (processCallbackQuery telegramUp [exampleKey \<mapsto> exampleFileID]
                       (exampleQuery (''detect_faces'' @ exampleKey))))
       = [messageUnprocessable]
   \<and> started (traceOf (processCallbackQuery telegramUp [exampleKey \<mapsto> exampleFileID]
                         (exampleQuery (''detect_faces'' @ exampleKey))))
       = []"
proof -
  have "menuPayloads allCmds Map.empty exampleFileID =
          map (\<lambda>(c, t). t @ ''/'' @ exampleKey) allCmds @ [commandCancel]"
    by (simp add: menuPayloads_def genImageInlineKeyboards_def
          payloads_buttons exampleFileID_def exampleKey_def split_def comp_def Let_def)
  then have "''detect_faces/'' @ exampleKey \<in> set (menuPayloads allCmds Map.empty exampleFileID)"
    and "''detect_faces'' @ exampleKey \<notin> set (menuPayloads allCmds Map.empty exampleFileID)"
    by (simp_all add: allCmds_def exampleKey_def commandCancel_def)
  moreover have "traceOf (processCallbackQuery telegramUp [exampleKey \<mapsto> exampleFileID]
                       (exampleQuery (''detect_faces'' @ exampleKey)))
                 = [LogError (''Failed to parse command: '' @ ''detect_faces'' @ exampleKey),
                    AnswerCallbackQuery ''q1'',
                    EditMessageText messageUnprocessable 7 42]"
    by (simp add: traceOf_def processCallbackQuery_def callbackMessage_def answerAndEdit_def
          exampleQuery_def exampleKey_def telegramUp_def commandCancel_def)
  ultimately show ?thesis by simp
qed

text \<open>
  Claim C2, as amended. When the key of a callback is not in the file store, the handler
  returns without starting \<^verbatim>\<open>processImage\<close> and without calling the vision service,
  and the menu message is edited (once the query is answered) to
  \<^verbatim>\<open>Failed to get file from the server.\<close>, the very text it is edited to when the
  transport fails to return the file.
\<close>

theorem stale_reference_message:
  assumes "queryData query = Some d" and "Split d (CHR ''/'') = command # key # rest"
    and "fileIDs key = None
         \<or> (\<exists>fileID description. fileIDs key = Some fileID \<and> getFile b fileID = Inl description)"
  shows "\<exists>result tr. processCallbackQuery b fileIDs query = Inr (result, tr)
           \<and> started tr = [] \<and> kakaoCalls tr = []
           \<and> edits tr = (if answerCallbackQuery b (queryID query)
                          then [''Failed to get file from the server.''] else [])"
proof -
  from assms(3) obtain acts where
    m: "callbackMessage b fileIDs query d = Inr (messageFailedToGetFile, acts)"
    and a: "started acts = []" "kakaoCalls acts = []" "edits acts = []"
  proof
    assume "fileIDs key = None"
    from callbackMessage_miss [where fileIDs = fileIDs, OF assms(2) this] that
    show thesis by simp
  next
    assume "\<exists>fileID description. fileIDs key = Some fileID \<and> getFile b fileID = Inl description"
    then obtain fileID description where
      "fileIDs key = Some fileID" "getFile b fileID = Inl description" by blast
    from callbackMessage_getFile_failed [where fileIDs = fileIDs, OF assms(2) this] that
    show thesis by simp
  qed
  have "processCallbackQuery b fileIDs query =
          Inr (fst (answerAndEdit b query messageFailedToGetFile),
               acts @ snd (answerAndEdit b query messageFailedToGetFile))"
    using assms(1) m by (rule processCallbackQuery_Inr)
  moreover have "started (acts @ snd (answerAndEdit b query messageFailedToGetFile)) = []"
    by (simp add: started_append a answerAndEdit_started)
  moreover have "kakaoCalls (acts @ snd (answerAndEdit b query messageFailedToGetFile)) = []"
    by (simp add: kakaoCalls_append a answerAndEdit_kakaoCalls)
  moreover have "edits (acts @ snd (answerAndEdit b query messageFailedToGetFile)) =
      (if answerCallbackQuery b (queryID query) then [''Failed to get file from the server.''] else [])"
    by (simp add: edits_append a answerAndEdit_edits messageFailedToGetFile_def)
  ultimately show ?thesis by blast
qed

theorem stale_reference_message_witness:
  "queryData (exampleQuery (''tag/'' @ exampleKey)) = Some (''tag/'' @ exampleKey)
   \<and> Split (''tag/'' @ exampleKey) (CHR ''/'') = [''tag'', exampleKey]
   \<and> Map.empty exampleKey = (None :: string option)
   \<and> (\<exists>result tr. processCallbackQuery telegramUp Map.empty (exampleQuery (''tag/'' @ exampleKey))
                       = Inr (result, tr)
          \<and> started tr = [] \<and> kakaoCalls tr = []
          \<and> edits tr = [''Failed to get file from the server.''])"
proof -
  have q: "queryData (exampleQuery (''tag/'' @ exampleKey)) = Some (''tag/'' @ exampleKey)"
    by (simp add: exampleQuery_def)
  have s: "Split (''tag/'' @ exampleKey) (CHR ''/'') = [''tag'', exampleKey]"
    by (simp add: exampleKey_def)
  have n: "Map.empty exampleKey = (None :: string option)
           \<or> (\<exists>fileID description. Map.empty exampleKey = Some fileID
                 \<and> getFile telegramUp fileID = Inl description)"
    by simp
  have up: "answerCallbackQuery telegramUp (queryID (exampleQuery (''tag/'' @ exampleKey)))"
    by (simp add: telegramUp_def)
  from stale_reference_message [OF q s n] up q s show ?thesis by simp
qed

text \<open>
  Claim C2 as stated fails: the text shown for a key that is not in the store and the text
  shown when the transport cannot return the file are the same, not two distinct texts.
\<close>

theorem stale_reference_counterexample:
  "edits (traceOf (processCallbackQuery telegramUp Map.empty (exampleQuery (''tag/'' @ exampleKey))))
     = [''Failed to get file from the server.'']
   \<and> edits (traceOf (processCallbackQuery telegramNoFile [exampleKey \<mapsto> exampleFileID]
                       (exampleQuery (''tag/'' @ exampleKey))))
     = [''Failed to get file from the server.'']"
  by (simp add: traceOf_def processCallbackQuery_def callbackMessage_def answerAndEdit_def
        exampleQuery_def exampleKey_def telegramUp_def telegramNoFile_def commandCancel_def
        messageFailedToGetFile_def)

text \<open>
  Claim C4, as amended. Storing a file id of at least 32 bytes changes the store at one
  key, the first 32 bytes of the file id: right after, looking that key up returns the
  file id, a callback that carries the key (on a menu message that has a text) makes the
  dispatcher ask the transport for that file id and no other, and every file id of the
  store is under its own key. The entry lasts until a file id with the same first 32
  bytes is stored. A callback whose key is not in
  the store makes the handler return normally, with no panic, no file asked for and no
  \<^verbatim>\<open>processImage\<close> started; the menu message is edited to the message
  \<^verbatim>\<open>messageFailedToGetFile\<close> when the query is answered, and is not edited when the
  answer fails.
\<close>

theorem store_round_trip:
  "keyedByPrefix Map.empty
   \<and> (genImageInlineKeyboards order fileIDs h = Inr (fileIDs', rows) \<longrightarrow>
      32 \<le> length h \<and> fileIDs' = fileIDs(take 32 h \<mapsto> h) \<and> fileIDs' (take 32 h) = Some h
      \<and> (keyedByPrefix fileIDs \<longrightarrow> keyedByPrefix fileIDs')
      \<and> (queryData hit = Some payload \<and> Split payload (CHR ''/'') = token # take 32 h # others
           \<and> messageText hit = Some text \<longrightarrow>
           (\<exists>result tr. processCallbackQuery b fileIDs' hit = Inr (result, tr)
              \<and> fetched tr = [h])))
   \<and> (queryData query = Some d \<and> Split d (CHR ''/'') = command # key # rest
        \<and> fileIDs key = None \<longrightarrow>
        (\<exists>result tr. processCallbackQuery b fileIDs query = Inr (result, tr)
           \<and> started tr = [] \<and> fetched tr = []
           \<and> edits tr = (if answerCallbackQuery b (queryID query)
                          then [messageFailedToGetFile] else [])))"
proof (intro conjI)
  show "keyedByPrefix Map.empty" by (simp add: keyedByPrefix_def)
next
  show "genImageInlineKeyboards order fileIDs h = Inr (fileIDs', rows) \<longrightarrow>
      32 \<le> length h \<and> fileIDs' = fileIDs(take 32 h \<mapsto> h) \<and> fileIDs' (take 32 h) = Some h
      \<and> (keyedByPrefix fileIDs \<longrightarrow> keyedByPrefix fileIDs')
      \<and> (queryData hit = Some payload \<and> Split payload (CHR ''/'') = token # take 32 h # others
           \<and> messageText hit = Some text \<longrightarrow>
           (\<exists>result tr. processCallbackQuery b fileIDs' hit = Inr (result, tr)
              \<and> fetched tr = [h]))"
  proof
    assume "genImageInlineKeyboards order fileIDs h = Inr (fileIDs', rows)"
    then have l: "32 \<le> length h" and s: "fileIDs' = fileIDs(take 32 h \<mapsto> h)"
      by (auto simp: genImageInlineKeyboards_def Let_def split: if_splits)
    from s have g: "fileIDs' (take 32 h) = Some h" by simp
    have k: "keyedByPrefix fileIDs'" if "keyedByPrefix fileIDs"
      using that unfolding s keyedByPrefix_def by (simp split: if_splits)
    have f: "\<exists>result tr. processCallbackQuery b fileIDs' hit = Inr (result, tr)
               \<and> fetched tr = [h]"
      if q: "queryData hit = Some payload"
        and p: "Split payload (CHR ''/'') = token # take 32 h # others"
        and t: "messageText hit = Some text"
    proof -
      from callbackMessage_fetches [where fileIDs = fileIDs', OF p g t]
      obtain m acts where c: "callbackMessage b fileIDs' hit payload = Inr (m, acts)"
        and a: "fetched acts = [h]"
        by blast
      from q c have "processCallbackQuery b fileIDs' hit =
                       Inr (fst (answerAndEdit b hit m), acts @ snd (answerAndEdit b hit m))"
        by (rule processCallbackQuery_Inr)
      moreover have "fetched (acts @ snd (answerAndEdit b hit m)) = [h]"
        by (simp add: fetched_append a answerAndEdit_fetched)
      ultimately show ?thesis by blast
    qed
    from l s g k f
    show "32 \<le> length h \<and> fileIDs' = fileIDs(take 32 h \<mapsto> h) \<and> fileIDs' (take 32 h) = Some h
      \<and> (keyedByPrefix fileIDs \<longrightarrow> keyedByPrefix fileIDs')
      \<and> (queryData hit = Some payload \<and> Split payload (CHR ''/'') = token # take 32 h # others
           \<and> messageText hit = Some text \<longrightarrow>
           (\<exists>result tr. processCallbackQuery b fileIDs' hit = Inr (result, tr)
              \<and> fetched tr = [h]))"
      by blast
  qed
next
  show "queryData query = Some d \<and> Split d (CHR ''/'') = command # key # rest
        \<and> fileIDs key = None \<longrightarrow>
        (\<exists>result tr. processCallbackQuery b fileIDs query = Inr (result, tr)
           \<and> started tr = [] \<and> fetched tr = []
           \<and> edits tr = (if answerCallbackQuery b (queryID query)
                          then [messageFailedToGetFile] else []))"
  proof
    assume a: "queryData query = Some d \<and> Split d (CHR ''/'') = command # key # rest
          \<and> fileIDs key = None"
    let ?acts = "[LogError (''Failed to get file id from shortened file id: '' @ backquote
                               @ key @ backquote @ '', maybe bot was restarted?'')]"
    from a have m: "callbackMessage b fileIDs query d = Inr (messageFailedToGetFile, ?acts)"
      using callbackMessage_miss [where fileIDs = fileIDs] by blast
    have "processCallbackQuery b fileIDs query =
            Inr (fst (answerAndEdit b query messageFailedToGetFile),
                 ?acts @ snd (answerAndEdit b query messageFailedToGetFile))"
      using a m processCallbackQuery_Inr by blast
    moreover have "started (?acts @ snd (answerAndEdit b query messageFailedToGetFile)) = []"
      by (simp add: answerAndEdit_started)
    moreover have "fetched (?acts @ snd (answerAndEdit b query messageFailedToGetFile)) = []"
      by (simp add: answerAndEdit_fetched)
    moreover have "edits (?acts @ snd (answerAndEdit b query messageFailedToGetFile)) =
        (if answerCallbackQuery b (queryID query) then [messageFailedToGetFile] else [])"
      by (simp add: answerAndEdit_edits)
    ultimately show "\<exists>result tr. processCallbackQuery b fileIDs query = Inr (result, tr)
             \<and> started tr = [] \<and> fetched tr = []
             \<and> edits tr = (if answerCallbackQuery b (queryID query)
                            then [messageFailedToGetFile] else [])"
      by blast
  qed
qed

theorem store_round_trip_witness:
  "genImageInlineKeyboards (rev allCmds) Map.empty exampleFileID
     = Inr ([exampleKey \<mapsto> exampleFileID], exampleRows (rev allCmds))
   \<and> 32 \<le> length exampleFileID
   \<and> [exampleKey \<mapsto> exampleFileID] (take 32 exampleFileID) = Some exampleFileID
   \<and> keyedByPrefix Map.empty \<and> keyedByPrefix [exampleKey \<mapsto> exampleFileID]
   \<and> queryData (exampleQuery (''tag/'' @ exampleKey)) = Some (''tag/'' @ exampleKey)
   \<and> Split (''tag/'' @ exampleKey) (CHR ''/'') = [''tag'', exampleKey]
   \<and> messageText (exampleQuery (''tag/'' @ exampleKey)) = Some messageActionImage
   \<and> (\<exists>result tr. processCallbackQuery telegramUp [exampleKey \<mapsto> exampleFileID]
                       (exampleQuery (''tag/'' @ exampleKey)) = Inr (result, tr)
          \<and> fetched tr = [exampleFileID])
   \<and> Map.empty exampleKey = (None :: string option)
   \<and> (\<exists>result tr. processCallbackQuery telegramUp Map.empty (exampleQuery (''tag/'' @ exampleKey))
                       = Inr (result, tr)
          \<and> started tr = [] \<and> fetched tr = [] \<and> edits tr = [messageFailedToGetFile])
   \<and> (\<exists>result tr. processCallbackQuery telegramNoAnswer Map.empty
                       (exampleQuery (''tag/'' @ exampleKey)) = Inr (result, tr)
          \<and> started tr = [] \<and> fetched tr = [] \<and> edits tr = [])"
proof -
  have k: "take 32 exampleFileID = exampleKey" by (simp add: exampleFileID_def exampleKey_def)
  have g: "genImageInlineKeyboards (rev allCmds) Map.empty exampleFileID
             = Inr ([exampleKey \<mapsto> exampleFileID], exampleRows (rev allCmds))"
    by (simp add: genImageInlineKeyboards_def Let_def exampleRows_def k)
       (simp add: exampleFileID_def)
  have q: "queryData (exampleQuery (''tag/'' @ exampleKey)) = Some (''tag/'' @ exampleKey)"
    by (simp add: exampleQuery_def)
  have s: "Split (''tag/'' @ exampleKey) (CHR ''/'') = [''tag'', exampleKey]"
    by (simp add: exampleKey_def)
  have s': "Split (''tag/'' @ exampleKey) (CHR ''/'') = ''tag'' # take 32 exampleFileID # []"
    by (simp only: s k)
  have t: "messageText (exampleQuery (''tag/'' @ exampleKey)) = Some messageActionImage"
    by (simp add: exampleQuery_def)
  have n: "Map.empty exampleKey = (None :: string option)" by simp
  have up: "answerCallbackQuery telegramUp (queryID (exampleQuery (''tag/'' @ exampleKey)))"
    by (simp add: telegramUp_def)
  have down: "\<not> answerCallbackQuery telegramNoAnswer (queryID (exampleQuery (''tag/'' @ exampleKey)))"
    by (simp add: telegramNoAnswer_def)
  note w = store_round_trip [of "rev allCmds" Map.empty exampleFileID
      "[exampleKey \<mapsto> exampleFileID]" "exampleRows (rev allCmds)"
      "exampleQuery (''tag/'' @ exampleKey)" "''tag/'' @ exampleKey" "''tag''" "[]"
      messageActionImage _
      "exampleQuery (''tag/'' @ exampleKey)" "''tag/'' @ exampleKey" "''tag''" exampleKey "[]"]
  from w [of telegramUp] g
  have a1: "32 \<le> length exampleFileID"
    and a2: "[exampleKey \<mapsto> exampleFileID] (take 32 exampleFileID) = Some exampleFileID"
    and a3: "keyedByPrefix Map.empty \<and> keyedByPrefix [exampleKey \<mapsto> exampleFileID]"
    by blast+
  from w [of telegramUp] g q s' t
  have a4: "\<exists>result tr. processCallbackQuery telegramUp [exampleKey \<mapsto> exampleFileID]
                       (exampleQuery (''tag/'' @ exampleKey)) = Inr (result, tr)
          \<and> fetched tr = [exampleFileID]"
    by blast
  from w [of telegramUp] q s n
  have "\<exists>result tr. processCallbackQuery telegramUp Map.empty (exampleQuery (''tag/'' @ exampleKey))
                       = Inr (result, tr)
          \<and> started tr = [] \<and> fetched tr = []
          \<and> edits tr = (if answerCallbackQuery telegramUp
                               (queryID (exampleQuery (''tag/'' @ exampleKey)))
                         then [messageFailedToGetFile] else [])"
    by blast
  with up have a5: "\<exists>result tr. processCallbackQuery telegramUp Map.empty
                       (exampleQuery (''tag/'' @ exampleKey)) = Inr (result, tr)
          \<and> started tr = [] \<and> fetched tr = [] \<and> edits tr = [messageFailedToGetFile]"
    by simp
  from w [of telegramNoAnswer] q s n
  have "\<exists>result tr. processCallbackQuery telegramNoAnswer Map.empty
                       (exampleQuery (''tag/'' @ exampleKey)) = Inr (result, tr)
          \<and> started tr = [] \<and> fetched tr = []
          \<and> edits tr = (if answerCallbackQuery telegramNoAnswer
                               (queryID (exampleQuery (''tag/'' @ exampleKey)))
                         then [messageFailedToGetFile] else [])"
    by blast
  with down have a6: "\<exists>result tr. processCallbackQuery telegramNoAnswer Map.empty
                       (exampleQuery (''tag/'' @ exampleKey)) = Inr (result, tr)
          \<and> started tr = [] \<and> fetched tr = [] \<and> edits tr = []"
    by simp
  from g a1 a2 a3 q s t a4 n a5 a6 show ?thesis by blast
qed

text \<open>
  Claim C4 as stated fails: a second file id with the same first 32 bytes takes the key
  of the first; the key produced when the first was stored then returns the second, and
  so does the dispatcher.
\<close>

theorem store_round_trip_counterexample:
  "take 32 collidingFileID = take 32 exampleFileID \<and> collidingFileID \<noteq> exampleFileID
   \<and> storeAfter allCmds Map.empty exampleFileID (take 32 exampleFileID) = Some exampleFileID
   \<and> storeAfter allCmds (storeAfter allCmds Map.empty exampleFileID) collidingFileID
        (take 32 exampleFileID) = Some collidingFileID
   \<and> fetched (traceOf (processCallbackQuery telegramUp
                (storeAfter allCmds (storeAfter allCmds Map.empty exampleFileID) collidingFileID)
                (exampleQuery (''tag/'' @ exampleKey))))
       = [collidingFileID]"
proof -
  have k1: "take 32 exampleFileID = exampleKey" by (simp add: exampleFileID_def exampleKey_def)
  have k2: "take 32 collidingFileID = exampleKey"
    by (simp add: collidingFileID_def exampleKey_def)
  have d: "collidingFileID \<noteq> exampleFileID" by (simp add: collidingFileID_def exampleFileID_def)
  have l1: "\<not> length exampleFileID < 32" by (simp add: exampleFileID_def)
  have l2: "\<not> length collidingFileID < 32" by (simp add: collidingFileID_def)
  have s1: "storeAfter allCmds Map.empty exampleFileID = [exampleKey \<mapsto> exampleFileID]"
    by (simp add: storeAfter_def genImageInlineKeyboards_def Let_def k1 l1)
  have s2: "storeAfter allCmds [exampleKey \<mapsto> exampleFileID] collidingFileID
              = [exampleKey \<mapsto> collidingFileID]"
    by (simp add: storeAfter_def genImageInlineKeyboards_def Let_def k2 l2)
  have s: "Split (''tag/'' @ exampleKey) (CHR ''/'') = [''tag'', exampleKey]"
    by (simp add: exampleKey_def)
  have s0: "Split exampleKey (CHR ''/'') = [exampleKey]"
    by (simp add: exampleKey_def)
  have c: "''tag/'' @ exampleKey \<noteq> commandCancel"
    by (simp add: commandCancel_def)
  have i: "Contains messageActionImage ''image''"
    by (simp add: messageActionImage_def HasPrefix_def)
  have "fetched (traceOf (processCallbackQuery telegramUp [exampleKey \<mapsto> collidingFileID]
                (exampleQuery (''tag/'' @ exampleKey)))) = [collidingFileID]"
    using c i
    by (simp add: traceOf_def processCallbackQuery_def callbackMessage_def answerAndEdit_def
          Let_def s s0 exampleQuery_def telegramUp_def)
  with k1 k2 d s1 s2 show ?thesis by simp
qed

text \<open>
  Claim C9. The key is the first 32 bytes of the file id: storing panics on a file id of
  fewer than 32 bytes, and stores the file id under that key on any other, whatever the
  order of the rows.
\<close>

theorem put_requires_32_bytes:
  "(length fileID < 32 \<longrightarrow>
      genImageInlineKeyboards order fileIDs fileID = Inl SliceBoundsOutOfRange)
   \<and> (32 \<le> length fileID \<longrightarrow>
        (\<exists>rows. genImageInlineKeyboards order fileIDs fileID
                   = Inr (fileIDs(take 32 fileID \<mapsto> fileID), rows)))"
  by (simp add: genImageInlineKeyboards_def Let_def)

theorem put_requires_32_bytes_witness:
  "length ''AgACAgUAAxkBAAIBQ2'' < 32
   \<and> genImageInlineKeyboards (rev allCmds) Map.empty ''AgACAgUAAxkBAAIBQ2''
       = Inl SliceBoundsOutOfRange
   \<and> 32 \<le> length exampleFileID
   \<and> (\<exists>rows. genImageInlineKeyboards (rev allCmds) Map.empty exampleFileID
                 = Inr ([take 32 exampleFileID \<mapsto> exampleFileID], rows))"
proof -
  have s: "length ''AgACAgUAAxkBAAIBQ2'' < 32" by simp
  have l: "32 \<le> length exampleFileID" by (simp add: exampleFileID_def)
  from put_requires_32_bytes [of "''AgACAgUAAxkBAAIBQ2''" "rev allCmds" Map.empty] s
  have "genImageInlineKeyboards (rev allCmds) Map.empty ''AgACAgUAAxkBAAIBQ2''
          = Inl SliceBoundsOutOfRange"
    by blast
  moreover from put_requires_32_bytes [of exampleFileID "rev allCmds" Map.empty] l
  have "\<exists>rows. genImageInlineKeyboards (rev allCmds) Map.empty exampleFileID
                 = Inr ([take 32 exampleFileID \<mapsto> exampleFileID], rows)"
    by blast
  ultimately show ?thesis using s l by blast
qed

text \<open>
  Claim C6, as amended. A callback whose payload is the cancel token starts no
  \<^verbatim>\<open>processImage\<close> and calls no vision service. When the query is answered, the menu
  message is edited to exactly \<^verbatim>\<open>Canceled.\<close>; when the answer fails, it is not
  edited.
\<close>

theorem cancel_callback:
  assumes "queryData query = Some commandCancel"
  shows "\<exists>result tr. processCallbackQuery b fileIDs query = Inr (result, tr)
           \<and> started tr = [] \<and> kakaoCalls tr = []
           \<and> edits tr = (if answerCallbackQuery b (queryID query) then [''Canceled.''] else [])"
proof -
  have m: "callbackMessage b fileIDs query commandCancel = Inr (messageCanceled, [])"
    by (simp add: callbackMessage_def)
  have "processCallbackQuery b fileIDs query =
          Inr (fst (answerAndEdit b query messageCanceled),
               [] @ snd (answerAndEdit b query messageCanceled))"
    using assms m by (rule processCallbackQuery_Inr)
  moreover have "started ([] @ snd (answerAndEdit b query messageCanceled)) = []"
    by (simp add: answerAndEdit_started)
  moreover have "kakaoCalls ([] @ snd (answerAndEdit b query messageCanceled)) = []"
    by (simp add: answerAndEdit_kakaoCalls)
  moreover have "edits ([] @ snd (answerAndEdit b query messageCanceled)) =
      (if answerCallbackQuery b (queryID query) then [''Canceled.''] else [])"
    by (simp add: answerAndEdit_edits messageCanceled_def)
  ultimately show ?thesis by blast
qed

theorem cancel_callback_witness:
  "queryData (exampleQuery commandCancel) = Some commandCancel
   \<and> (\<exists>result tr. processCallbackQuery telegramUp [exampleKey \<mapsto> exampleFileID]
                       (exampleQuery commandCancel) = Inr (result, tr)
          \<and> started tr = [] \<and> kakaoCalls tr = [] \<and> edits tr = [''Canceled.''])
   \<and> (\<exists>result tr. processCallbackQuery telegramNoAnswer [exampleKey \<mapsto> exampleFileID]
                       (exampleQuery commandCancel) = Inr (result, tr)
          \<and> started tr = [] \<and> kakaoCalls tr = [] \<and> edits tr = [])"
proof -
  have q: "queryData (exampleQuery commandCancel) = Some commandCancel"
    by (simp add: exampleQuery_def)
  have up: "answerCallbackQuery telegramUp (queryID (exampleQuery commandCancel))"
    by (simp add: telegramUp_def)
  have down: "\<not> answerCallbackQuery telegramNoAnswer (queryID (exampleQuery commandCancel))"
    by (simp add: telegramNoAnswer_def)
  from cancel_callback [OF q, of telegramUp "[exampleKey \<mapsto> exampleFileID]"] up
  have a: "\<exists>result tr. processCallbackQuery telegramUp [exampleKey \<mapsto> exampleFileID]
                       (exampleQuery commandCancel) = Inr (result, tr)
          \<and> started tr = [] \<and> kakaoCalls tr = [] \<and> edits tr = [''Canceled.'']"
    by simp
  from cancel_callback [OF q, of telegramNoAnswer "[exampleKey \<mapsto> exampleFileID]"] down
  have b: "\<exists>result tr. processCallbackQuery telegramNoAnswer [exampleKey \<mapsto> exampleFileID]
                       (exampleQuery commandCancel) = Inr (result, tr)
          \<and> started tr = [] \<and> kakaoCalls tr = [] \<and> edits tr = []"
    by simp
  from q a b show ?thesis by blast
qed

text \<open>
  Claim C6 as stated fails: on a transport that refuses the answer to the callback query,
  a cancel callback ends with the menu message not edited at all.
\<close>

theorem cancel_callback_counterexample:
  "queryData (exampleQuery commandCancel) = Some commandCancel
   \<and> traceOf (processCallbackQuery telegramNoAnswer [exampleKey \<mapsto> exampleFileID]
               (exampleQuery commandCancel))
       = [AnswerCallbackQuery ''q1'', LogError (''Failed to answer callback query: '' @ ''q1'')]
   \<and> edits (traceOf (processCallbackQuery telegramNoAnswer [exampleKey \<mapsto> exampleFileID]
                       (exampleQuery commandCancel)))
       = []"
proof -
  have "traceOf (processCallbackQuery telegramNoAnswer [exampleKey \<mapsto> exampleFileID]
               (exampleQuery commandCancel))
       = [AnswerCallbackQuery ''q1'', LogError (''Failed to answer callback query: '' @ ''q1'')]"
    by (simp add: traceOf_def processCallbackQuery_def callbackMessage_def answerAndEdit_def
          exampleQuery_def telegramNoAnswer_def telegramUp_def)
  then show ?thesis by (simp add: exampleQuery_def)
qed

section \<open>The renderers leave their input alone\<close>



























section \<open>The face renderer paints the overlay of the specification\<close>

lemma extends_refl: "pens n s \<Longrightarrow> extends n [] s s"
  by (simp add: extends_def grows_def)

lemma extends_trans:
  "extends n ps s s' \<Longrightarrow> extends n qs s' s'' \<Longrightarrow> extends n (ps @ qs) s s''"
  by (simp add: extends_def grows_def)

lemma extends_pens: "extends n ps s s' \<Longrightarrow> pens n s'"
  by (simp add: extends_def grows_def)

lemma run_path:
  "run (map gcPath cs @ [gcFillStroke]) s = gcFillStroke (s\<lparr>gc := (gc s)\<lparr>Path := Path (gc s) @ cs\<rparr>\<rparr>)"
proof (induction cs arbitrary: s)
  case Nil
  show ?case by (simp add: run_def)
next
  case (Cons c cs)
  have "run (map gcPath (c # cs) @ [gcFillStroke]) s = run (map gcPath cs @ [gcFillStroke]) (gcPath c s)"
    by (simp add: run_def)
  also have "\<dots> = gcFillStroke ((gcPath c s)\<lparr>gc := (gc (gcPath c s))\<lparr>Path := Path (gc (gcPath c s)) @ cs\<rparr>\<rparr>)"
    by (rule Cons.IH)
  also have "\<dots> = gcFillStroke (s\<lparr>gc := (gc s)\<lparr>Path := Path (gc s) @ c # cs\<rparr>\<rparr>)"
    by (simp add: gcPath_def)
  finally show ?case .
qed

lemma extends_stroke:
  assumes "pens n s"
  shows "extends n [FillStroke cs StrokeWidth (StrokeColor (gc s)) Transparent] s
           (run (map gcPath cs @ [gcFillStroke]) s)"
  using assms
  by (simp add: run_path extends_def grows_def pens_def gcFillStroke_def paintOn_def)

lemma extends_label:
  assumes "pens n s"
  shows "extends n [DrawString text x y c fs] s (fcDrawString ft n c fs text x y s)"
  using assms
  by (simp add: extends_def grows_def pens_def fcDrawString_def Let_def paintOn_def
        split: option.splits)

lemma grows_mask:
  assumes "pens n s"
  shows "grows n (faceMask W H f) s (maskFace n W H f s)"
  using assms
  by (simp add: grows_def pens_def maskFace_def faceMask_def scale_def paintOn_def)

lemma extends_markPoints:
  assumes "pens n s"
  shows "extends n
           (map (\<lambda>(px, py).
                   FillStroke [MoveTo (scale px W) (scale py H),
                               ArcTo (scale px W) (scale py H) CircleRadius CircleRadius 0 (- pi * 2),
                               Close]
                     StrokeWidth (StrokeColor (gc s)) Transparent) points)
           s (markPoints W H points s)"
  using assms
proof (induction points arbitrary: s)
  case Nil
  then show ?case by (simp add: markPoints_def extends_refl)
next
  case (Cons p points)
  obtain px py where p: "p = (px, py)" by (cases p)
  let ?cs = "[MoveTo (W * px) (H * py),
              ArcTo (W * px) (H * py) CircleRadius CircleRadius 0 (- pi * 2), Close]"
  let ?s' = "run (map gcPath ?cs @ [gcFillStroke]) s"
  have step: "extends n [FillStroke ?cs StrokeWidth (StrokeColor (gc s)) Transparent] s ?s'"
    using Cons.prems by (rule extends_stroke)
  then have "pens n ?s'" by (rule extends_pens)
  then have ih: "extends n
           (map (\<lambda>(px, py).
                   FillStroke [MoveTo (scale px W) (scale py H),
                               ArcTo (scale px W) (scale py H) CircleRadius CircleRadius 0 (- pi * 2),
                               Close]
                     StrokeWidth (StrokeColor (gc ?s')) Transparent) points)
           ?s' (markPoints W H points ?s')"
    by (rule Cons.IH)
  from step have sc: "StrokeColor (gc ?s') = StrokeColor (gc s)"
    by (simp add: extends_def)
  from ih have "extends n
           (map (\<lambda>(px, py).
                   FillStroke [MoveTo (scale px W) (scale py H),
                               ArcTo (scale px W) (scale py H) CircleRadius CircleRadius 0 (- pi * 2),
                               Close]
                     StrokeWidth (StrokeColor (gc s)) Transparent) points)
           ?s' (markPoints W H points ?s')"
    by (simp only: sc)
  with step have "extends n
           ([FillStroke ?cs StrokeWidth (StrokeColor (gc s)) Transparent]
            @ map (\<lambda>(px, py).
                   FillStroke [MoveTo (scale px W) (scale py H),
                               ArcTo (scale px W) (scale py H) CircleRadius CircleRadius 0 (- pi * 2),
                               Close]
                     StrokeWidth (StrokeColor (gc s)) Transparent) points)
           s (markPoints W H points ?s')"
    by (rule extends_trans)
  moreover have "markPoints W H (p # points) s = markPoints W H points ?s'"
    by (simp add: markPoints_def p gcMoveTo_def gcArcTo_def gcClose_def run_def)
  ultimately show ?case by (simp add: p scale_def)
qed

lemma grows_refl: "pens n s \<Longrightarrow> grows n [] s s"
  by (simp add: grows_def)

lemma grows_trans: "grows n ps s s' \<Longrightarrow> grows n qs s' s'' \<Longrightarrow> grows n (ps @ qs) s s''"
  by (simp add: grows_def)

lemma grows_drawFace:
  assumes "pens n s"
  shows "grows n (faceOverlay W H (real_of_int (Dy (heap s ! n)) / 24) i f) s
           (drawFace ft n W H i f s)"
proof -
  let ?c = "colorForIndex i"
  let ?fs = "real_of_int (Dy (heap s ! n)) / 24"
  let ?rect = "[MoveTo (W * faceX f) (H * faceY f),
                LineTo (W * (faceX f + faceW f)) (H * faceY f),
                LineTo (W * (faceX f + faceW f)) (H * (faceY f + faceH f)),
                LineTo (W * faceX f) (H * (faceY f + faceH f)),
                LineTo (W * faceX f) (H * faceY f),
                Close]"
  let ?dot = "\<lambda>(px, py).
                FillStroke [MoveTo (scale px W) (scale py H),
                            ArcTo (scale px W) (scale py H) CircleRadius CircleRadius 0 (- pi * 2),
                            Close]
                  StrokeWidth ?c Transparent"
  let ?s1 = "gcSetStrokeColor ?c s"
  let ?s2 = "run (map gcPath ?rect @ [gcFillStroke]) ?s1"
  let ?s3 = "fcDrawString ft n ?c ?fs (''Face #'' @ decimal (i + 1)) (toInt (W * faceX f + 5))
               (PointToFixed (H * (faceY f + faceH f) - 5) div 64) ?s2"
  let ?s4 = "markPoints W H (Nose f) ?s3"
  let ?s5 = "markPoints W H (RightEye f) ?s4"
  let ?s6 = "markPoints W H (LeftEye f) ?s5"
  let ?s7 = "markPoints W H (Lip f) ?s6"
  have p1: "pens n ?s1" and c1: "StrokeColor (gc ?s1) = ?c" and h1: "heap ?s1 = heap s"
    using assms by (simp_all add: pens_def gcSetStrokeColor_def)
  have e2: "extends n [FillStroke ?rect StrokeWidth ?c Transparent] ?s1 ?s2"
    using extends_stroke [OF p1, of ?rect] by (simp only: c1)
  then have p2: "pens n ?s2" and c2: "StrokeColor (gc ?s2) = ?c"
    using c1 by (simp_all add: extends_def grows_def)
  have e3: "extends n [DrawString (''Face #'' @ decimal (i + 1)) (toInt (W * faceX f + 5))
               (PointToFixed (H * (faceY f + faceH f) - 5) div 64) ?c ?fs] ?s2 ?s3"
    using p2 by (rule extends_label)
  then have p3: "pens n ?s3" and c3: "StrokeColor (gc ?s3) = ?c"
    using c2 by (simp_all add: extends_def grows_def)
  have e4: "extends n (map ?dot (Nose f)) ?s3 ?s4"
    using extends_markPoints [OF p3, of W H "Nose f"] by (simp only: c3)
  then have p4: "pens n ?s4" and c4: "StrokeColor (gc ?s4) = ?c"
    using c3 by (simp_all add: extends_def grows_def)
  have e5: "extends n (map ?dot (RightEye f)) ?s4 ?s5"
    using extends_markPoints [OF p4, of W H "RightEye f"] by (simp only: c4)
  then have p5: "pens n ?s5" and c5: "StrokeColor (gc ?s5) = ?c"
    using c4 by (simp_all add: extends_def grows_def)
  have e6: "extends n (map ?dot (LeftEye f)) ?s5 ?s6"
    using extends_markPoints [OF p5, of W H "LeftEye f"] by (simp only: c5)
  then have p6: "pens n ?s6" and c6: "StrokeColor (gc ?s6) = ?c"
    using c5 by (simp_all add: extends_def grows_def)
  have e7: "extends n (map ?dot (Lip f)) ?s6 ?s7"
    using extends_markPoints [OF p6, of W H "Lip f"] by (simp only: c6)
  note extends_trans [OF extends_trans [OF extends_trans [OF extends_trans [OF
          extends_trans [OF e2 e3] e4] e5] e6] e7]
  then have "grows n (faceOverlay W H ?fs i f) ?s1 ?s7"
    by (simp add: extends_def faceOverlay_def Let_def scale_def)
  then have "grows n (faceOverlay W H ?fs i f) s ?s7"
    by (simp add: grows_def h1)
  moreover have "drawFace ft n W H i f s = ?s7"
    by (simp add: drawFace_def Let_def gcMoveTo_def gcLineTo_def gcClose_def)
  ultimately show ?thesis by simp
qed

lemma grows_facesBody:
  assumes "pens n s"
  shows "grows n (facesOverlay command W H (real_of_int (Dy (heap s ! n)) / 24) i [f]) s
           (facesBody ft n W H command i f s)"
  using assms grows_drawFace [OF assms, of W H i f ft] grows_mask [OF assms, of W H f]
  by (simp add: facesBody_def grows_refl)

lemma facesOverlay_Cons:
  "facesOverlay command W H fs i (f # rest)
     = facesOverlay command W H fs i [f] @ facesOverlay command W H fs (Suc i) rest"
  by simp

lemma grows_faces:
  assumes "pens n s"
  shows "grows n (facesOverlay command W H (real_of_int (Dy (heap s ! n)) / 24) i faces) s
           (forRange (facesBody ft n W H command) i faces s)"
  using assms
proof (induction faces arbitrary: i s)
  case Nil
  then show ?case by (simp add: grows_refl)
next
  case (Cons f faces)
  let ?s' = "facesBody ft n W H command i f s"
  let ?fs = "real_of_int (Dy (heap s ! n)) / 24"
  have step: "grows n (facesOverlay command W H ?fs i [f]) s ?s'"
    using Cons.prems by (rule grows_facesBody)
  then have "pens n ?s'" and dy: "Dy (heap ?s' ! n) = Dy (heap s ! n)"
    by (simp_all add: grows_def)
  then have "grows n (facesOverlay command W H (real_of_int (Dy (heap ?s' ! n)) / 24) (Suc i) faces)
               ?s' (forRange (facesBody ft n W H command) (Suc i) faces ?s')"
    by (intro Cons.IH)
  then have "grows n (facesOverlay command W H ?fs (Suc i) faces)
               ?s' (forRange (facesBody ft n W H command) (Suc i) faces ?s')"
    by (simp only: dy)
  with step have "grows n (facesOverlay command W H ?fs i [f]
                            @ facesOverlay command W H ?fs (Suc i) faces)
               s (forRange (facesBody ft n W H command) (Suc i) faces ?s')"
    by (rule grows_trans)
  then show ?case by (simp only: facesOverlay_Cons [symmetric] forRange.simps)
qed

lemma grows_Painted: "grows n ps s s' \<Longrightarrow> Painted (heap s' ! n) = Painted (heap s ! n) @ ps"
  by (simp add: grows_def)

lemma pens_start:
  "pens (length h) (run [gcSetLineWidth StrokeWidth, gcSetFillColor Transparent]
     \<lparr>heap = h @ [copyImage (h ! img)], gc = NewGraphicContext (length h), logged = []\<rparr>)"
  by (simp add: pens_def run_def gcSetLineWidth_def gcSetFillColor_def NewGraphicContext_def)

lemma heap_start:
  "heap (run [gcSetLineWidth StrokeWidth, gcSetFillColor Transparent]
     \<lparr>heap = h @ [copyImage (h ! img)], gc = NewGraphicContext (length h), logged = []\<rparr>)
   = h @ [copyImage (h ! img)]"
  by (simp add: run_def gcSetLineWidth_def gcSetFillColor_def)

text \<open>
  Claim C7. What the face renderer paints on the new image is the overlay stated from
  the declared width and height of the detection response: every normalized coordinate
  of every face is multiplied by the response's width or height. Of the decoded image
  only the height is read, for the size of the font.
\<close>

theorem faces_scaled_by_declared_size:
  assumes "img < length h"
  shows "\<exists>h' logs. processImageForFaces ft h img detected command = Inr (h', length h, logs)
           \<and> Painted (h' ! length h) =
               Painted (h ! img)
               @ facesOverlay command (real_of_int (faceWidth detected))
                   (real_of_int (faceHeight detected)) (real_of_int (Dy (h ! img)) / 24)
                   0 (Faces detected)"
proof -
  let ?W = "real_of_int (faceWidth detected)"
  let ?H = "real_of_int (faceHeight detected)"
  let ?s1 = "run [gcSetLineWidth StrokeWidth, gcSetFillColor Transparent]
     \<lparr>heap = h @ [copyImage (h ! img)], gc = NewGraphicContext (length h), logged = []\<rparr>"
  let ?s2 = "forRange (facesBody ft (length h) ?W ?H command) 0 (Faces detected) ?s1"
  have c: "heap ?s1 ! length h = copyImage (h ! img)"
    by (simp only: heap_start nth_append_length)
  have "grows (length h)
          (facesOverlay command ?W ?H (real_of_int (Dy (heap ?s1 ! length h)) / 24) 0 (Faces detected))
          ?s1 ?s2"
    using pens_start by (rule grows_faces)
  then have "Painted (heap ?s2 ! length h) =
               Painted (heap ?s1 ! length h)
               @ facesOverlay command ?W ?H (real_of_int (Dy (heap ?s1 ! length h)) / 24)
                   0 (Faces detected)"
    by (rule grows_Painted)
  then have "Painted (heap ?s2 ! length h) =
               Painted (copyImage (h ! img))
               @ facesOverlay command ?W ?H (real_of_int (Dy (copyImage (h ! img))) / 24)
                   0 (Faces detected)"
    by (simp only: c)
  then have "Painted (heap ?s2 ! length h) =
               Painted (h ! img) @ facesOverlay command ?W ?H (real_of_int (Dy (h ! img)) / 24)
                   0 (Faces detected)"
    by (simp add: copyImage_def)
  moreover have "processImageForFaces ft h img detected command
                   = Inr (heap ?s2, length h, logged ?s2)"
    using assms by (simp add: processImageForFaces_def Let_def gcSave_def)
  ultimately show ?thesis by blast
qed

theorem faces_scaled_by_declared_size_witness:
  "0 < length [exampleImage]
   \<and> (\<exists>h' logs. processImageForFaces noDrawStringError [exampleImage] 0 exampleDetected DetectFaces
                    = Inr (h', 1, logs)
         \<and> Painted (h' ! 1) =
             [FillStroke [MoveTo 50 50, LineTo 150 50, LineTo 150 75, LineTo 50 75, LineTo 50 50, Close]
                StrokeWidth (255, 255, 0, 255) Transparent,
              DrawString ''Face #1'' 55 70 (255, 255, 0, 255) 2,
              FillStroke [MoveTo 100 50, ArcTo 100 50 CircleRadius CircleRadius 0 (- pi * 2), Close]
                StrokeWidth (255, 255, 0, 255) Transparent])"
proof -
  have l: "0 < length [exampleImage]" by simp
  have d: "decimal (Suc 0) = ''1''" by (simp add: decimal.simps)
  have o: "facesOverlay DetectFaces (real_of_int (faceWidth exampleDetected))
             (real_of_int (faceHeight exampleDetected))
             (real_of_int (Dy ([exampleImage] ! 0)) / 24) 0 (Faces exampleDetected)
           = [FillStroke [MoveTo 50 50, LineTo 150 50, LineTo 150 75, LineTo 50 75, LineTo 50 50, Close]
                StrokeWidth (255, 255, 0, 255) Transparent,
              DrawString ''Face #1'' 55 70 (255, 255, 0, 255) 2,
              FillStroke [MoveTo 100 50, ArcTo 100 50 CircleRadius CircleRadius 0 (- pi * 2), Close]
                StrokeWidth (255, 255, 0, 255) Transparent]"
    by (simp add: exampleDetected_def exampleFace_def exampleImage_def faceOverlay_def Let_def
          scale_def colorForIndex_def colors_def toInt_def PointToFixed_def d)
  have e: "Painted ([exampleImage] ! 0) = []" by (simp add: exampleImage_def)
  from faces_scaled_by_declared_size [OF l, of noDrawStringError exampleDetected DetectFaces]
  obtain h' logs where
    r: "processImageForFaces noDrawStringError [exampleImage] 0 exampleDetected DetectFaces
          = Inr (h', length [exampleImage], logs)"
    and p: "Painted (h' ! length [exampleImage]) =
              Painted ([exampleImage] ! 0)
              @ facesOverlay DetectFaces (real_of_int (faceWidth exampleDetected))
                  (real_of_int (faceHeight exampleDetected))
                  (real_of_int (Dy ([exampleImage] ! 0)) / 24) 0 (Faces exampleDetected)"
    by blast
  from p have "Painted (h' ! length [exampleImage]) =
             [FillStroke [MoveTo 50 50, LineTo 150 50, LineTo 150 75, LineTo 50 75, LineTo 50 50, Close]
                StrokeWidth (255, 255, 0, 255) Transparent,
              DrawString ''Face #1'' 55 70 (255, 255, 0, 255) 2,
              FillStroke [MoveTo 100 50, ArcTo 100 50 CircleRadius CircleRadius 0 (- pi * 2), Close]
                StrokeWidth (255, 255, 0, 255) Transparent]"
    by (simp only: o e append_Nil)
  then have "Painted (h' ! 1) =
             [FillStroke [MoveTo 50 50, LineTo 150 50, LineTo 150 75, LineTo 50 75, LineTo 50 50, Close]
                StrokeWidth (255, 255, 0, 255) Transparent,
              DrawString ''Face #1'' 55 70 (255, 255, 0, 255) 2,
              FillStroke [MoveTo 100 50, ArcTo 100 50 CircleRadius CircleRadius 0 (- pi * 2), Close]
                StrokeWidth (255, 255, 0, 255) Transparent]"
    by simp
  moreover from r have "processImageForFaces noDrawStringError [exampleImage] 0 exampleDetected
                          DetectFaces = Inr (h', 1, logs)"
    by simp
  ultimately show ?thesis using l by blast
qed

section \<open>Properties of the image processing\<close>

lemma switch_faces: "switchCommand b k c bytes DetectFaces = caseFaces b k c bytes DetectFaces"
  by (simp add: switchCommand_def)

lemma switch_products:
  "switchCommand b k c bytes DetectProducts = caseProducts b k c bytes DetectProducts"
  by (simp add: switchCommand_def command_defs)

lemma switch_tag: "switchCommand b k c bytes Tag = caseTag b k c bytes Tag"
  by (simp add: switchCommand_def command_defs)

lemma switch_poses: "switchCommand b k c bytes AnalyzePoses = casePoses b k c bytes AnalyzePoses"
  by (simp add: switchCommand_def command_defs)

lemma switch_texts: "switchCommand b k c bytes ExtractTexts = caseTexts b k c bytes ExtractTexts"
  by (simp add: switchCommand_def command_defs)

lemma processImage_Inr:
  assumes "readBytes k fileURL = Inr imgBytes"
    and "switchCommand b k chatID imgBytes command = Inr (errorMessage, acts)"
  shows "processImage b k chatID messageID fileURL command =
           Inr ([SendChatAction chatID ChatActionTyping, HttpGet fileURL] @ acts
                @ [DeleteMessage chatID messageID]
                @ (if errorMessage \<noteq> [] then [SendMessage chatID errorMessage, LogError errorMessage]
                   else []))"
  using assms by (simp add: processImage_def)

lemma texts_append: "texts (xs @ ys) = texts xs @ texts ys"
  by (induction xs rule: texts.induct) simp_all

lemma photos_append: "photos (xs @ ys) = photos xs @ photos ys"
  by (induction xs rule: photos.induct) simp_all

text \<open>A branch that fails with a message and has only called the vision service.\<close>

lemma failed_branch:
  assumes "readBytes k fileURL = Inr imgBytes"
    and "switchCommand b k chatID imgBytes command = Inr (errorMessage, [Kakao call imgBytes])"
    and "errorMessage \<noteq> []"
  shows "\<exists>tr. processImage b k chatID messageID fileURL command = Inr tr
           \<and> texts tr = [errorMessage] \<and> photos tr = [] \<and> kakaoCalls tr = [call]"
proof -
  from processImage_Inr [OF assms(1,2), of messageID] assms(3)
  show ?thesis by simp
qed

text \<open>
  Claim C5. When the image is read and face detection succeeds with no face, the one text
  message sent is \<^verbatim>\<open>No face detected on this image.\<close>, no photo is sent, and the
  vision service was called once. When the detection fails, the one text message sent is
  another one: \<^verbatim>\<open>Failed to detect faces:\<close> followed by the error.
\<close>

theorem no_face_detected:
  assumes "readBytes k fileURL = Inr imgBytes"
  shows "(detectFace k imgBytes = Inr detected \<and> Faces detected = [] \<longrightarrow>
           (\<exists>tr. processImage b k chatID messageID fileURL DetectFaces = Inr tr
              \<and> texts tr = [''No face detected on this image.''] \<and> photos tr = []
              \<and> kakaoCalls tr = [DetectFaceFromBytes]))
       \<and> (detectFace k imgBytes = Inl err \<longrightarrow>
           (\<exists>tr. processImage b k chatID messageID fileURL DetectFaces = Inr tr
              \<and> texts tr = [''Failed to detect faces: '' @ err] \<and> photos tr = []
              \<and> texts tr \<noteq> [''No face detected on this image.'']))"
proof (rule conjI; rule impI)
  assume a: "detectFace k imgBytes = Inr detected \<and> Faces detected = []"
  then have "switchCommand b k chatID imgBytes DetectFaces
               = Inr (''No face detected on this image.'', [Kakao DetectFaceFromBytes imgBytes])"
    by (simp add: switch_faces caseFaces_def)
  with assms show "\<exists>tr. processImage b k chatID messageID fileURL DetectFaces = Inr tr
              \<and> texts tr = [''No face detected on this image.''] \<and> photos tr = []
              \<and> kakaoCalls tr = [DetectFaceFromBytes]"
    by (rule failed_branch) simp
next
  assume a: "detectFace k imgBytes = Inl err"
  then have "switchCommand b k chatID imgBytes DetectFaces
               = Inr (''Failed to detect faces: '' @ err, [Kakao DetectFaceFromBytes imgBytes])"
    by (simp add: switch_faces caseFaces_def)
  with assms have "\<exists>tr. processImage b k chatID messageID fileURL DetectFaces = Inr tr
              \<and> texts tr = [''Failed to detect faces: '' @ err] \<and> photos tr = []
              \<and> kakaoCalls tr = [DetectFaceFromBytes]"
    by (rule failed_branch) simp
  then show "\<exists>tr. processImage b k chatID messageID fileURL DetectFaces = Inr tr
              \<and> texts tr = [''Failed to detect faces: '' @ err] \<and> photos tr = []
              \<and> texts tr \<noteq> [''No face detected on this image.'']"
    by auto
qed

theorem no_face_detected_witness:
  "readBytes emptyVision exampleURL = Inr ''JPEG''
   \<and> detectFace emptyVision ''JPEG'' = Inr noFaces \<and> Faces noFaces = []
   \<and> (\<exists>tr. processImage telegramUp emptyVision 7 42 exampleURL DetectFaces = Inr tr
         \<and> texts tr = [''No face detected on this image.''] \<and> photos tr = []
         \<and> kakaoCalls tr = [DetectFaceFromBytes])
   \<and> readBytes visionDown exampleURL = Inr ''JPEG''
   \<and> detectFace visionDown ''JPEG'' = Inl ''timeout''
   \<and> (\<exists>tr. processImage telegramUp visionDown 7 42 exampleURL DetectFaces = Inr tr
         \<and> texts tr = [''Failed to detect faces: timeout''] \<and> photos tr = [])"
proof -
  have r1: "readBytes emptyVision exampleURL = Inr ''JPEG''" by (simp add: emptyVision_def)
  have d1: "detectFace emptyVision ''JPEG'' = Inr noFaces" by (simp add: emptyVision_def)
  have f1: "Faces noFaces = []" by (simp add: noFaces_def)
  have r2: "readBytes visionDown exampleURL = Inr ''JPEG''"
    by (simp add: visionDown_def emptyVision_def)
  have d2: "detectFace visionDown ''JPEG'' = Inl ''timeout''" by (simp add: visionDown_def)
  from no_face_detected [OF r1, of noFaces telegramUp 7 42 "''x''"] d1 f1
  have a: "\<exists>tr. processImage telegramUp emptyVision 7 42 exampleURL DetectFaces = Inr tr
         \<and> texts tr = [''No face detected on this image.''] \<and> photos tr = []
         \<and> kakaoCalls tr = [DetectFaceFromBytes]"
    by blast
  from no_face_detected [OF r2, of noFaces telegramUp 7 42 "''timeout''"] d2
  have "\<exists>tr. processImage telegramUp visionDown 7 42 exampleURL DetectFaces = Inr tr
         \<and> texts tr = [''Failed to detect faces: '' @ ''timeout''] \<and> photos tr = []"
    by blast
  then have b: "\<exists>tr. processImage telegramUp visionDown 7 42 exampleURL DetectFaces = Inr tr
         \<and> texts tr = [''Failed to detect faces: timeout''] \<and> photos tr = []"
    by simp
  from r1 d1 f1 a r2 d2 b show ?thesis by blast
qed

lemma copyImage_same: "copyImage img = img"
  by (simp add: copyImage_def)

lemma poses_empty: "processImageForPoses [img] 0 [] = Inr ([img, img], 1)"
  by (simp add: processImageForPoses_def Let_def run_def gcSetLineWidth_def gcSetFillColor_def
        gcSave_def copyImage_same)

lemma sendRendered_ok:
  assumes "jpegEncode k newImg = Inr buf"
  shows "sendRendered b k chatID newImg caption =
           ((case sendPhoto b chatID buf caption of
               None \<Rightarrow> []
             | Some description \<Rightarrow> ''Failed to send image: '' @ description),
            [SendChatAction chatID ChatActionUploadPhoto, SendPhoto chatID buf caption])"
  using assms by (simp add: sendRendered_def split: option.splits)

lemma sendRendered_failed:
  assumes "jpegEncode k newImg = Inl err"
  shows "sendRendered b k chatID newImg caption =
           (''Failed to encode image: '' @ err, [SendChatAction chatID ChatActionUploadPhoto])"
  using assms by (simp add: sendRendered_def)

text \<open>
  Claim C10, as amended. For a downloaded image and a pose result with zero poses, the
  rendering returns a second buffer equal to the decoded image, pixels and size, with
  nothing painted on it; when the image decodes and that buffer encodes, the encoding is
  sent as a photo, with no test of emptiness. When the image does not decode, or the
  buffer does not encode, no photo is sent and the reply is the message of that failure.
  With no recognized word, the text branch still sends its message, whose body is the
  join of no words. With no face, no product or no label, the three other branches send
  their message of failure and no photo.
\<close>

theorem empty_pose_and_text_results:
  assumes "readBytes k fileURL = Inr imgBytes"
  shows "(analyzePose k imgBytes = Inr [] \<and> imageDecode k imgBytes = Inr img \<longrightarrow>
            processImageForPoses [img] 0 [] = Inr ([img, img], 1)
            \<and> (jpegEncode k img = Inr buf \<longrightarrow>
                 (\<exists>tr. processImage b k chatID messageID fileURL AnalyzePoses = Inr tr
                    \<and> photos tr = [(buf, ''Process result of '' @ quote @ AnalyzePoses @ quote)]
                    \<and> texts tr =
                        (case sendPhoto b chatID buf
                                (''Process result of '' @ quote @ AnalyzePoses @ quote) of
                           None \<Rightarrow> []
                         | Some description \<Rightarrow> [''Failed to send image: '' @ description])))
            \<and> (jpegEncode k img = Inl encodeError \<longrightarrow>
                 (\<exists>tr. processImage b k chatID messageID fileURL AnalyzePoses = Inr tr
                    \<and> photos tr = []
                    \<and> texts tr = [''Failed to encode image: '' @ encodeError])))
       \<and> (analyzePose k imgBytes = Inr [] \<and> imageDecode k imgBytes = Inl decodeError \<longrightarrow>
            (\<exists>tr. processImage b k chatID messageID fileURL AnalyzePoses = Inr tr
               \<and> photos tr = []
               \<and> texts tr = [''Failed to decode image: '' @ decodeError]))
       \<and> (detectText k imgBytes = Inr blocks \<and> concat blocks = [] \<longrightarrow>
            (\<exists>tr. processImage b k chatID messageID fileURL ExtractTexts = Inr tr
               \<and> photos tr = []
               \<and> texts tr =
                   (''Process result of '' @ quote @ ExtractTexts @ quote @ '':'' @ newline @ newline
                      @ Join [] '', '')
                   # (case sendMessage b chatID
                             (''Process result of '' @ quote @ ExtractTexts @ quote @ '':''
                                @ newline @ newline @ Join [] '', '') of
                        None \<Rightarrow> []
                      | Some description \<Rightarrow> [''Failed to send extracted texts: '' @ description])))
       \<and> (detectFace k imgBytes = Inr faces \<and> Faces faces = [] \<longrightarrow>
            (\<exists>tr. processImage b k chatID messageID fileURL DetectFaces = Inr tr
               \<and> photos tr = [] \<and> texts tr = [''No face detected on this image.'']))
       \<and> (detectProduct k imgBytes = Inr products \<and> Objects products = [] \<longrightarrow>
            (\<exists>tr. processImage b k chatID messageID fileURL DetectProducts = Inr tr
               \<and> photos tr = [] \<and> texts tr = [''No product detected on this image.'']))
       \<and> (generateTags k imgBytes = Inr ([], korean) \<longrightarrow>
            (\<exists>tr. processImage b k chatID messageID fileURL Tag = Inr tr
               \<and> photos tr = [] \<and> texts tr = [''Could not tag given image.'']))"
proof -
  let ?caption = "''Process result of '' @ quote @ AnalyzePoses @ quote"
  have sent: "\<exists>tr. processImage b k chatID messageID fileURL AnalyzePoses = Inr tr
                 \<and> photos tr = [(buf, ?caption)]
                 \<and> texts tr =
                     (case sendPhoto b chatID buf ?caption of
                        None \<Rightarrow> []
                      | Some description \<Rightarrow> [''Failed to send image: '' @ description])"
    if p: "analyzePose k imgBytes = Inr []" and d: "imageDecode k imgBytes = Inr img"
      and e: "jpegEncode k img = Inr buf"
  proof -
    let ?msg = "case sendPhoto b chatID buf ?caption of
                  None \<Rightarrow> [] | Some description \<Rightarrow> ''Failed to send image: '' @ description"
    from e have "sendRendered b k chatID img ?caption =
                 (?msg, [SendChatAction chatID ChatActionUploadPhoto, SendPhoto chatID buf ?caption])"
      by (rule sendRendered_ok)
    with p d have "switchCommand b k chatID imgBytes AnalyzePoses =
        Inr (?msg, [Kakao AnalyzePoseFromBytes imgBytes,
                    SendChatAction chatID ChatActionUploadPhoto, SendPhoto chatID buf ?caption])"
      by (simp add: switch_poses casePoses_def poses_empty)
    from processImage_Inr [OF assms this, of messageID]
    show ?thesis by (simp split: option.splits)
  qed
  have unencoded: "\<exists>tr. processImage b k chatID messageID fileURL AnalyzePoses = Inr tr
                    \<and> photos tr = []
                    \<and> texts tr = [''Failed to encode image: '' @ encodeError]"
    if p: "analyzePose k imgBytes = Inr []" and d: "imageDecode k imgBytes = Inr img"
      and e: "jpegEncode k img = Inl encodeError"
  proof -
    from e have "sendRendered b k chatID img ?caption =
                 (''Failed to encode image: '' @ encodeError,
                  [SendChatAction chatID ChatActionUploadPhoto])"
      by (rule sendRendered_failed)
    with p d have "switchCommand b k chatID imgBytes AnalyzePoses =
        Inr (''Failed to encode image: '' @ encodeError,
             [Kakao AnalyzePoseFromBytes imgBytes, SendChatAction chatID ChatActionUploadPhoto])"
      by (simp add: switch_poses casePoses_def poses_empty)
    from processImage_Inr [OF assms this, of messageID]
    show ?thesis by simp
  qed
  have undecoded: "\<exists>tr. processImage b k chatID messageID fileURL AnalyzePoses = Inr tr
               \<and> photos tr = []
               \<and> texts tr = [''Failed to decode image: '' @ decodeError]"
    if p: "analyzePose k imgBytes = Inr []" and d: "imageDecode k imgBytes = Inl decodeError"
  proof -
    from p d have "switchCommand b k chatID imgBytes AnalyzePoses =
        Inr (''Failed to decode image: '' @ decodeError, [Kakao AnalyzePoseFromBytes imgBytes])"
      by (simp add: switch_poses casePoses_def)
    with assms have "\<exists>tr. processImage b k chatID messageID fileURL AnalyzePoses = Inr tr
              \<and> texts tr = [''Failed to decode image: '' @ decodeError] \<and> photos tr = []
              \<and> kakaoCalls tr = [AnalyzePoseFromBytes]"
      by (rule failed_branch) simp
    then show ?thesis by blast
  qed
  have words: "\<exists>tr. processImage b k chatID messageID fileURL ExtractTexts = Inr tr
               \<and> photos tr = []
               \<and> texts tr =
                   (''Process result of '' @ quote @ ExtractTexts @ quote @ '':'' @ newline @ newline
                      @ Join [] '', '')
                   # (case sendMessage b chatID
                             (''Process result of '' @ quote @ ExtractTexts @ quote @ '':''
                                @ newline @ newline @ Join [] '', '') of
                        None \<Rightarrow> []
                      | Some description \<Rightarrow> [''Failed to send extracted texts: '' @ description])"
    if d: "detectText k imgBytes = Inr blocks" and c: "concat blocks = []"
  proof -
    let ?message = "''Process result of '' @ quote @ ExtractTexts @ quote @ '':'' @ newline
                      @ newline @ Join [] '', ''"
    let ?msg = "case sendMessage b chatID ?message of
                  None \<Rightarrow> []
                | Some description \<Rightarrow> ''Failed to send extracted texts: '' @ description"
    have "switchCommand b k chatID imgBytes ExtractTexts =
        Inr (?msg, [Kakao DetectTextFromBytes imgBytes, SendMessage chatID ?message])"
      by (simp add: switch_texts caseTexts_def Let_def d c split: option.splits)
    from processImage_Inr [OF assms this, of messageID]
    show ?thesis by (simp split: option.splits)
  qed
  have nofaces: "\<exists>tr. processImage b k chatID messageID fileURL DetectFaces = Inr tr
               \<and> photos tr = [] \<and> texts tr = [''No face detected on this image.'']"
    if "detectFace k imgBytes = Inr faces" and "Faces faces = []"
  proof -
    from that have "switchCommand b k chatID imgBytes DetectFaces
               = Inr (''No face detected on this image.'', [Kakao DetectFaceFromBytes imgBytes])"
      by (simp add: switch_faces caseFaces_def)
    with assms have "\<exists>tr. processImage b k chatID messageID fileURL DetectFaces = Inr tr
              \<and> texts tr = [''No face detected on this image.''] \<and> photos tr = []
              \<and> kakaoCalls tr = [DetectFaceFromBytes]"
      by (rule failed_branch) simp
    then show ?thesis by blast
  qed
  have noproducts: "\<exists>tr. processImage b k chatID messageID fileURL DetectProducts = Inr tr
               \<and> photos tr = [] \<and> texts tr = [''No product detected on this image.'']"
    if "detectProduct k imgBytes = Inr products" and "Objects products = []"
  proof -
    from that have "switchCommand b k chatID imgBytes DetectProducts
               = Inr (''No product detected on this image.'', [Kakao DetectProductFromBytes imgBytes])"
      by (simp add: switch_products caseProducts_def)
    with assms have "\<exists>tr. processImage b k chatID messageID fileURL DetectProducts = Inr tr
              \<and> texts tr = [''No product detected on this image.''] \<and> photos tr = []
              \<and> kakaoCalls tr = [DetectProductFromBytes]"
      by (rule failed_branch) simp
    then show ?thesis by blast
  qed
  have notags: "\<exists>tr. processImage b k chatID messageID fileURL Tag = Inr tr
               \<and> photos tr = [] \<and> texts tr = [''Could not tag given image.'']"
    if "generateTags k imgBytes = Inr ([], korean)"
  proof -
    from that have "switchCommand b k chatID imgBytes Tag
               = Inr (''Could not tag given image.'', [Kakao GenerateTagsFromBytes imgBytes])"
      by (simp add: switch_tag caseTag_def)
    with assms have "\<exists>tr. processImage b k chatID messageID fileURL Tag = Inr tr
              \<and> texts tr = [''Could not tag given image.''] \<and> photos tr = []
              \<and> kakaoCalls tr = [GenerateTagsFromBytes]"
      by (rule failed_branch) simp
    then show ?thesis by blast
  qed
  have rendered: "processImageForPoses [img] 0 [] = Inr ([img, img], 1)" by (rule poses_empty)
  from rendered sent unencoded undecoded words nofaces noproducts notags
  show ?thesis by (intro conjI impI) (elim conjE, assumption | blast)+
qed

theorem empty_pose_and_text_results_witness:
  "readBytes emptyVision exampleURL = Inr ''JPEG''
   \<and> analyzePose emptyVision ''JPEG'' = Inr []
   \<and> imageDecode emptyVision ''JPEG'' = Inr exampleImage
   \<and> processImageForPoses [exampleImage] 0 [] = Inr ([exampleImage, exampleImage], 1)
   \<and> jpegEncode emptyVision exampleImage = Inr ''encoded''
   \<and> (\<exists>tr. processImage telegramUp emptyVision 7 42 exampleURL AnalyzePoses = Inr tr
         \<and> photos tr = [(''encoded'', ''Process result of '' @ quote @ AnalyzePoses @ quote)]
         \<and> texts tr = [])
   \<and> readBytes visionNoEncode exampleURL = Inr ''JPEG''
   \<and> analyzePose visionNoEncode ''JPEG'' = Inr []
   \<and> imageDecode visionNoEncode ''JPEG'' = Inr exampleImage
   \<and> jpegEncode visionNoEncode exampleImage = Inl ''jpeg: write failed''
   \<and> (\<exists>tr. processImage telegramUp visionNoEncode 7 42 exampleURL AnalyzePoses = Inr tr
         \<and> photos tr = [] \<and> texts tr = [''Failed to encode image: jpeg: write failed''])
   \<and> readBytes visionNoDecode exampleURL = Inr ''JPEG''
   \<and> analyzePose visionNoDecode ''JPEG'' = Inr []
   \<and> imageDecode visionNoDecode ''JPEG'' = Inl ''image: unknown format''
   \<and> (\<exists>tr. processImage telegramUp visionNoDecode 7 42 exampleURL AnalyzePoses = Inr tr
         \<and> photos tr = [] \<and> texts tr = [''Failed to decode image: image: unknown format''])
   \<and> detectText emptyVision ''JPEG'' = Inr [] \<and> concat ([] :: string list list) = []
   \<and> (\<exists>tr. processImage telegramUp emptyVision 7 42 exampleURL ExtractTexts = Inr tr
         \<and> photos tr = []
         \<and> texts tr = [''Process result of '' @ quote @ ExtractTexts @ quote @ '':''
                         @ newline @ newline])
   \<and> detectFace emptyVision ''JPEG'' = Inr noFaces \<and> Faces noFaces = []
   \<and> (\<exists>tr. processImage telegramUp emptyVision 7 42 exampleURL DetectFaces = Inr tr
         \<and> photos tr = [] \<and> texts tr = [''No face detected on this image.''])
   \<and> detectProduct emptyVision ''JPEG'' = Inr noProducts \<and> Objects noProducts = []
   \<and> (\<exists>tr. processImage telegramUp emptyVision 7 42 exampleURL DetectProducts = Inr tr
         \<and> photos tr = [] \<and> texts tr = [''No product detected on this image.''])
   \<and> generateTags emptyVision ''JPEG'' = Inr ([], [])
   \<and> (\<exists>tr. processImage telegramUp emptyVision 7 42 exampleURL Tag = Inr tr
         \<and> photos tr = [] \<and> texts tr = [''Could not tag given image.''])"
proof -
  have r: "readBytes emptyVision exampleURL = Inr ''JPEG''" by (simp add: emptyVision_def)
  have p: "analyzePose emptyVision ''JPEG'' = Inr []" by (simp add: emptyVision_def)
  have i: "imageDecode emptyVision ''JPEG'' = Inr exampleImage" by (simp add: emptyVision_def)
  have e: "jpegEncode emptyVision exampleImage = Inr ''encoded''"
    by (simp add: emptyVision_def exampleImage_def)
  have r1: "readBytes visionNoEncode exampleURL = Inr ''JPEG''"
    by (simp add: visionNoEncode_def emptyVision_def)
  have p1: "analyzePose visionNoEncode ''JPEG'' = Inr []"
    by (simp add: visionNoEncode_def emptyVision_def)
  have i1: "imageDecode visionNoEncode ''JPEG'' = Inr exampleImage"
    by (simp add: visionNoEncode_def emptyVision_def)
  have e1: "jpegEncode visionNoEncode exampleImage = Inl ''jpeg: write failed''"
    by (simp add: visionNoEncode_def)
  have r2: "readBytes visionNoDecode exampleURL = Inr ''JPEG''"
    by (simp add: visionNoDecode_def emptyVision_def)
  have p2: "analyzePose visionNoDecode ''JPEG'' = Inr []"
    by (simp add: visionNoDecode_def emptyVision_def)
  have i2: "imageDecode visionNoDecode ''JPEG'' = Inl ''image: unknown format''"
    by (simp add: visionNoDecode_def)
  have t: "detectText emptyVision ''JPEG'' = Inr []" by (simp add: emptyVision_def)
  have c: "concat ([] :: string list list) = []" by simp
  have f: "detectFace emptyVision ''JPEG'' = Inr noFaces" by (simp add: emptyVision_def)
  have f0: "Faces noFaces = []" by (simp add: noFaces_def)
  have o: "detectProduct emptyVision ''JPEG'' = Inr noProducts" by (simp add: emptyVision_def)
  have o0: "Objects noProducts = []" by (simp add: noProducts_def)
  have g: "generateTags emptyVision ''JPEG'' = Inr ([], [])" by (simp add: emptyVision_def)
  have sp: "sendPhoto telegramUp c buf caption = None" for c buf caption
    by (simp add: telegramUp_def)
  have sm: "sendMessage telegramUp c m = None" for c m
    by (simp add: telegramUp_def)
  note w = empty_pose_and_text_results [OF r, of exampleImage "''encoded''" telegramUp 7 42
             _ _ "[]" noFaces noProducts "[]"]
  note w1 = empty_pose_and_text_results [OF r1, of exampleImage _ telegramUp 7 42
              "''jpeg: write failed''"]
  note w2 = empty_pose_and_text_results [OF r2, of _ _ telegramUp 7 42 _
              "''image: unknown format''"]
  from w p i have a0: "processImageForPoses [exampleImage] 0 []
                         = Inr ([exampleImage, exampleImage], 1)"
    by blast
  from w p i e have "\<exists>tr. processImage telegramUp emptyVision 7 42 exampleURL AnalyzePoses = Inr tr
         \<and> photos tr = [(''encoded'', ''Process result of '' @ quote @ AnalyzePoses @ quote)]
         \<and> texts tr =
             (case sendPhoto telegramUp 7 ''encoded''
                     (''Process result of '' @ quote @ AnalyzePoses @ quote) of
                None \<Rightarrow> []
              | Some description \<Rightarrow> [''Failed to send image: '' @ description])"
    by blast
  then have a1: "\<exists>tr. processImage telegramUp emptyVision 7 42 exampleURL AnalyzePoses = Inr tr
         \<and> photos tr = [(''encoded'', ''Process result of '' @ quote @ AnalyzePoses @ quote)]
         \<and> texts tr = []"
    by (simp add: sp)
  from w1 p1 i1 e1
  have "\<exists>tr. processImage telegramUp visionNoEncode 7 42 exampleURL AnalyzePoses = Inr tr
         \<and> photos tr = [] \<and> texts tr = [''Failed to encode image: '' @ ''jpeg: write failed'']"
    by blast
  then have b1: "\<exists>tr. processImage telegramUp visionNoEncode 7 42 exampleURL AnalyzePoses = Inr tr
         \<and> photos tr = [] \<and> texts tr = [''Failed to encode image: jpeg: write failed'']"
    by simp
  from w2 p2 i2
  have "\<exists>tr. processImage telegramUp visionNoDecode 7 42 exampleURL AnalyzePoses = Inr tr
         \<and> photos tr = [] \<and> texts tr = [''Failed to decode image: '' @ ''image: unknown format'']"
    by blast
  then have b2: "\<exists>tr. processImage telegramUp visionNoDecode 7 42 exampleURL AnalyzePoses = Inr tr
         \<and> photos tr = [] \<and> texts tr = [''Failed to decode image: image: unknown format'']"
    by simp
  from w t c have "\<exists>tr. processImage telegramUp emptyVision 7 42 exampleURL ExtractTexts = Inr tr
         \<and> photos tr = []
         \<and> texts tr =
             (''Process result of '' @ quote @ ExtractTexts @ quote @ '':'' @ newline @ newline
                @ Join [] '', '')
             # (case sendMessage telegramUp 7
                       (''Process result of '' @ quote @ ExtractTexts @ quote @ '':''
                          @ newline @ newline @ Join [] '', '') of
                  None \<Rightarrow> []
                | Some description \<Rightarrow> [''Failed to send extracted texts: '' @ description])"
    by blast
  then have a2: "\<exists>tr. processImage telegramUp emptyVision 7 42 exampleURL ExtractTexts = Inr tr
         \<and> photos tr = []
         \<and> texts tr = [''Process result of '' @ quote @ ExtractTexts @ quote @ '':''
                         @ newline @ newline]"
    by (simp add: sm)
  from w f f0 have a3: "\<exists>tr. processImage telegramUp emptyVision 7 42 exampleURL DetectFaces = Inr tr
         \<and> photos tr = [] \<and> texts tr = [''No face detected on this image.'']"
    by blast
  from w o o0 have a4: "\<exists>tr. processImage telegramUp emptyVision 7 42 exampleURL DetectProducts = Inr tr
         \<and> photos tr = [] \<and> texts tr = [''No product detected on this image.'']"
    by blast
  from w g have a5: "\<exists>tr. processImage telegramUp emptyVision 7 42 exampleURL Tag = Inr tr
         \<and> photos tr = [] \<and> texts tr = [''Could not tag given image.'']"
    by blast
  from r p i a0 e a1 r1 p1 i1 e1 b1 r2 p2 i2 b2 t c a2 f f0 a3 o o0 a4 g a5
  show ?thesis by (intro conjI)
qed

text \<open>
  Claim C10 as stated fails: when the bytes do not decode as an image, a pose result
  with zero poses ends with no photo and with the message of the decoder's failure.
\<close>

theorem empty_pose_and_text_results_counterexample:
  "readBytes visionNoDecode exampleURL = Inr ''JPEG''
   \<and> analyzePose visionNoDecode ''JPEG'' = Inr []
   \<and> processImage telegramUp visionNoDecode 7 42 exampleURL AnalyzePoses
       = Inr [SendChatAction 7 ChatActionTyping, HttpGet exampleURL,
              Kakao AnalyzePoseFromBytes ''JPEG'', DeleteMessage 7 42,
              SendMessage 7 ''Failed to decode image: image: unknown format'',
              LogError ''Failed to decode image: image: unknown format'']
   \<and> photos (imageTrace (processImage telegramUp visionNoDecode 7 42 exampleURL AnalyzePoses))
       = []
   \<and> texts (imageTrace (processImage telegramUp visionNoDecode 7 42 exampleURL AnalyzePoses))
       = [''Failed to decode image: image: unknown format'']"
proof -
  have r: "readBytes visionNoDecode exampleURL = Inr ''JPEG''"
    by (simp add: visionNoDecode_def emptyVision_def)
  have p: "analyzePose visionNoDecode ''JPEG'' = Inr []"
    by (simp add: visionNoDecode_def emptyVision_def)
  have i: "imageDecode visionNoDecode ''JPEG'' = Inl ''image: unknown format''"
    by (simp add: visionNoDecode_def)
  have s: "switchCommand telegramUp visionNoDecode 7 ''JPEG'' AnalyzePoses =
             Inr (''Failed to decode image: image: unknown format'',
                  [Kakao AnalyzePoseFromBytes ''JPEG''])"
    by (simp add: switch_poses casePoses_def p i)
  from processImage_Inr [OF r s, of 42]
  have t: "processImage telegramUp visionNoDecode 7 42 exampleURL AnalyzePoses
       = Inr [SendChatAction 7 ChatActionTyping, HttpGet exampleURL,
              Kakao AnalyzePoseFromBytes ''JPEG'', DeleteMessage 7 42,
              SendMessage 7 ''Failed to decode image: image: unknown format'',
              LogError ''Failed to decode image: image: unknown format'']"
    by simp
  from r p t show ?thesis by (simp add: imageTrace_def)
qed

end
